theory Spec2Isabelle
  imports Complex_Main "HOL-Library.Char_ord" "HOL-Library.List_Lexorder" "HOL-Library.Multiset"
    "HOL-Library.Sublist"
begin

section \<open>hlmon: a heartbeat monitor for one validator\<close>

text \<open>
  The program (\<^verbatim>\<open>main.go\<close>) finds the newest log file below a base directory, reads the
  JSON values it holds, keeps the last one, decodes it into a \<^verbatim>\<open>LogArrayEntry\<close> and
  alerts a Slack channel and PagerDuty when the heartbeat status of the configured validator
  breaches a threshold. This theory embeds the decoder (\<^verbatim>\<open>ValidatorData.UnmarshalJSON\<close>),
  the evaluator (\<^verbatim>\<open>processLogEntry\<close>), the locator (\<^verbatim>\<open>findLatestDir\<close>,
  \<^verbatim>\<open>findLatestFile\<close>, \<^verbatim>\<open>findLatestLogFile\<close>) and one iteration of the loop of
  \<^verbatim>\<open>main\<close>.
\<close>

subsection \<open>Values\<close>

text \<open>
  A \<^verbatim>\<open>float64\<close> that \<^verbatim>\<open>encoding/json\<close> produces is finite. The model represents it by
  the real number it denotes (the sign of a zero is not represented); on finite values Go's
  comparison operators are the order of these reals. The untyped constants \<^verbatim>\<open>40\<close> and
  \<^verbatim>\<open>0\<close> of the source are exact; \<^verbatim>\<open>0.02\<close> is converted to the nearest \<^verbatim>\<open>float64\<close>,
  which is \<open>5764607523034235 / 2^58\<close>, slightly above one fiftieth. The decimals \<^verbatim>\<open>0.01\<close>
  and \<^verbatim>\<open>0.03\<close> likewise read as \<open>5764607523034235 / 2^59\<close> and \<open>1080863910568919 / 2^55\<close>.
\<close>

type_synonym float64 = real

definition float64_0_02 :: float64 where
  "float64_0_02 = 5764607523034235 / 2 ^ 58"

definition float64_0_01 :: float64 where
  "float64_0_01 = 5764607523034235 / 2 ^ 59"

definition float64_0_03 :: float64 where
  "float64_0_03 = 1080863910568919 / 2 ^ 55"

text \<open>
  A JSON text as a syntax tree; the members of an object stand in the order of the text.
  Number literals are taken to lie in the range of \<^verbatim>\<open>float64\<close> and are represented by
  the \<^verbatim>\<open>float64\<close> they read as. The value that \<^verbatim>\<open>json.Unmarshal\<close> stores in an
  \<^verbatim>\<open>interface{}\<close> is represented by the text it was read from.
\<close>

datatype json =
    JNull
  | JBool bool
  | JNumber float64
  | JString string
  | JArray "json list"
  | JObject "(string \<times> json) list"

text \<open>
  \<^verbatim>\<open>json.Marshal\<close> of a value that \<^verbatim>\<open>json.Unmarshal\<close> stored in an \<^verbatim>\<open>interface{}\<close>
  (lines 97 and 160). An object was stored as a \<^verbatim>\<open>map[string]interface{}\<close>, in which
  the last member of a name replaced the earlier ones, and is written with its keys sorted;
  a \<^verbatim>\<open>float64\<close> is written in a form that reads back as the same \<^verbatim>\<open>float64\<close>. The call
  cannot fail on such a value, so the error branches of lines 98 and 161 are not in the
  model.
\<close>

fun last_wins :: "(string \<times> 'a) list \<Rightarrow> (string \<times> 'a) list" where
  "last_wins [] = []"
| "last_wins ((key, v) # ms) =
     (if key \<in> fst ` set ms then last_wins ms else (key, v) # last_wins ms)"

fun remarshal :: "json \<Rightarrow> json" where
  "remarshal (JArray xs) = JArray (map remarshal xs)"
| "remarshal (JObject ms) =
     JObject (sort_key fst (last_wins (map (\<lambda>(key, v). (key, remarshal v)) ms)))"
| "remarshal v = v"

record Config =
  SlackToken :: string
  SlackChannel :: string
  PagerDutyAPIKey :: string
  PagerDutyServiceID :: string
  BasePath :: string
  ValidatorAddress :: string
  CheckInterval :: int

text \<open>\<^verbatim>\<open>LastAckDuration\<close> is a \<^verbatim>\<open>*float64\<close>: \<open>None\<close> is the nil pointer.\<close>

record HeartbeatStatus =
  SinceLastSuccess :: float64
  LastAckDuration :: "float64 option"

record ValidatorData =
  HomeValidator :: string
  ValidatorsMissingHeartbeat :: "string list"
  HeartbeatStatuses :: "string \<rightharpoonup> HeartbeatStatus"

record LogArrayEntry =
  Timestamp :: string
  Validator :: ValidatorData

definition zero_HeartbeatStatus :: HeartbeatStatus where
  "zero_HeartbeatStatus = \<lparr>SinceLastSuccess = 0, LastAckDuration = None\<rparr>"

datatype panic = NilPointerDereference

subsection \<open>What the program does to the outside\<close>

text \<open>
  A call of \<^verbatim>\<open>log.Printf\<close> is recorded by the line it prints, a call of
  \<^verbatim>\<open>sendSlackAlert\<close> by the channel and the message, a call of \<^verbatim>\<open>sendPagerDutyAlert\<close>
  by the routing key and the description.
\<close>

datatype log_line =
    ErrorOpeningLogFile
  | ErrorDecodingJSONLine
  | RawJSONContent json
  | ExpectedTimestamp json
  | ErrorDecodingValidatorData
  | CouldNotUnmarshalAsArray
  | TimestampLine string

datatype event =
    Log log_line
  | SlackAlert string string
  | PagerDutyAlert string string
  | FileClose
  | Sleep int

subsection \<open>The evaluator: \<^verbatim>\<open>processLogEntry\<close>\<close>

text \<open>
  Go's \<^verbatim>\<open>||\<close> and \<^verbatim>\<open>&&\<close> evaluate their right operand only when the left one does not
  decide; an operand can panic.
\<close>

definition deref :: "'a option \<Rightarrow> panic + 'a" where
  "deref p = (case p of None \<Rightarrow> Inl NilPointerDereference | Some x \<Rightarrow> Inr x)"

definition or_else :: "panic + bool \<Rightarrow> panic + bool \<Rightarrow> panic + bool" where
  "or_else a b = (case a of Inl p \<Rightarrow> Inl p | Inr holds \<Rightarrow> if holds then Inr True else b)"

definition and_also :: "panic + bool \<Rightarrow> panic + bool \<Rightarrow> panic + bool" where
  "and_also a b = (case a of Inl p \<Rightarrow> Inl p | Inr holds \<Rightarrow> if holds then b else Inr False)"

definition compare_deref :: "'a option \<Rightarrow> ('a \<Rightarrow> bool) \<Rightarrow> panic + bool" where
  "compare_deref p test = (case deref p of Inl e \<Rightarrow> Inl e | Inr x \<Rightarrow> Inr (test x))"

text \<open>The condition of line 193, for a status found in the map.\<close>

definition found_condition :: "HeartbeatStatus \<Rightarrow> panic + bool" where
  "found_condition status =
     or_else (Inr (SinceLastSuccess status > 40))
       (or_else
          (and_also (Inr (LastAckDuration status \<noteq> None))
             (compare_deref (LastAckDuration status) (\<lambda>d. d > float64_0_02)))
          (Inr (LastAckDuration status = None)))"

text \<open>The condition of line 198, for the status of the \<^verbatim>\<open>else\<close> branch.\<close>

definition not_found_condition :: "HeartbeatStatus \<Rightarrow> panic + bool" where
  "not_found_condition status =
     or_else (Inr (SinceLastSuccess status \<le> 0))
       (compare_deref (LastAckDuration status) (\<lambda>d. d \<le> 0))"

text \<open>
  The message of lines 194 and 199. \<^verbatim>\<open>%v\<close> prints a \<^verbatim>\<open>float64\<close> in its shortest
  decimal form (\<open>fmt_float\<close>, a function of the \<^verbatim>\<open>strconv\<close> package), a nil pointer as
  \<^verbatim>\<open><nil>\<close>, and any other \<^verbatim>\<open>*float64\<close> as the address it holds, in hexadecimal. The
  address is chosen by the allocator when the status is decoded; \<open>ptr_text\<close> is its text.
\<close>

definition alert_text :: "(float64 \<Rightarrow> string) \<Rightarrow> string \<Rightarrow> string \<Rightarrow> HeartbeatStatus \<Rightarrow> string" where
  "alert_text fmt_float ptr_text address status =
     ''Alert for HyperLiq validator '' @ address @ '':'' @ [CHR 0x0A] @
     ''since_last_success = '' @ fmt_float (SinceLastSuccess status) @
     '', last_ack_duration = '' @
     (case LastAckDuration status of None \<Rightarrow> ''<nil>'' | Some d \<Rightarrow> ptr_text)"

definition send_alerts :: "Config \<Rightarrow> string \<Rightarrow> event list" where
  "send_alerts config alertMessage =
     [SlackAlert (SlackChannel config) alertMessage,
      PagerDutyAlert (PagerDutyAPIKey config) alertMessage]"

text \<open>
  \<^verbatim>\<open>processLogEntry\<close> returns what it did and, when it panicked, the panic. In the
  \<^verbatim>\<open>else\<close> branch \<^verbatim>\<open>status\<close> is the zero value that the failed map lookup left.
\<close>

definition processLogEntry ::
    "(float64 \<Rightarrow> string) \<Rightarrow> string \<Rightarrow> LogArrayEntry \<Rightarrow> Config \<Rightarrow> event list \<times> panic option" where
  "processLogEntry fmt_float ptr_text logEntry config =
     (let printed = [Log (TimestampLine (Timestamp logEntry))] in
      case HeartbeatStatuses (Validator logEntry) (ValidatorAddress config) of
        Some status \<Rightarrow>
          (case found_condition status of
             Inl p \<Rightarrow> (printed, Some p)
           | Inr holds \<Rightarrow>
               if holds then
                 (printed @ send_alerts config
                    (alert_text fmt_float ptr_text (ValidatorAddress config) status), None)
               else (printed, None))
      | None \<Rightarrow>
          (let status = zero_HeartbeatStatus in
           case not_found_condition status of
             Inl p \<Rightarrow> (printed, Some p)
           | Inr holds \<Rightarrow>
               if holds then
                 (printed @ send_alerts config
                    (alert_text fmt_float ptr_text (ValidatorAddress config) status), None)
               else (printed, None)))"

text \<open>An alert was sent when the trace holds a Slack or a PagerDuty call.\<close>

fun is_alert :: "event \<Rightarrow> bool" where
  "is_alert (SlackAlert c m) = True"
| "is_alert (PagerDutyAlert k m) = True"
| "is_alert e = False"

definition alerts :: "event list \<Rightarrow> event list" where
  "alerts evs = filter is_alert evs"

subsection \<open>Member names\<close>

text \<open>
  When \<^verbatim>\<open>encoding/json\<close> decodes an object into a struct it gives a member to the field
  whose name (the \<^verbatim>\<open>json\<close> tag) equals the member's key, and otherwise to the field whose
  name equals it up to letter case, by Unicode simple case folding. Folding sends an ASCII
  letter to its capital, and U+017F (bytes C5 BF) and U+212A (bytes E2 84 AA) to \<open>S\<close> and
  \<open>K\<close>; every other character stays outside ASCII. The names of the structs of this program
  fold to different strings, so a key goes to the field whose folded name is the folded key.
\<close>

definition to_upper :: "char \<Rightarrow> char" where
  "to_upper c =
     (if CHR ''a'' \<le> c \<and> c \<le> CHR ''z'' then char_of (of_char c - (32::nat)) else c)"

fun fold_name :: "string \<Rightarrow> string" where
  "fold_name (a # b # c # cs) =
     (if a = CHR 0xC5 \<and> b = CHR 0xBF then CHR ''S'' # fold_name (c # cs)
      else if a = CHR 0xE2 \<and> b = CHR 0x84 \<and> c = CHR 0xAA then CHR ''K'' # fold_name cs
      else to_upper a # fold_name (b # c # cs))"
| "fold_name [a, b] =
     (if a = CHR 0xC5 \<and> b = CHR 0xBF then [CHR ''S''] else [to_upper a, to_upper b])"
| "fold_name [a] = [to_upper a]"
| "fold_name [] = []"

definition key_matches :: "string \<Rightarrow> string \<Rightarrow> bool" where
  "key_matches name key = (fold_name key = fold_name name)"

subsection \<open>The decoder: \<^verbatim>\<open>ValidatorData.UnmarshalJSON\<close>\<close>

datatype error =
    UnmarshalTypeError
  | OSError
  | NoDirectoriesFound string
  | NoFilesFound string
  | FailedToFindLatestDateDirectory error
  | FailedToFindLatestLogFile error

datatype 'a result = Ok 'a | Err error | Panic panic

text \<open>
  \<^verbatim>\<open>json.Unmarshal\<close> into a \<^verbatim>\<open>HeartbeatStatus\<close> (line 103). The members are visited in
  order. A number sets the field; \<^verbatim>\<open>null\<close> leaves a \<^verbatim>\<open>float64\<close> as it is and sets a
  pointer to nil; a value of another kind is a type error; a member of no field is skipped.
  (The library goes on decoding after a type error and returns it at the end; the caller
  drops the value then, so the model stops at once.) Decoding \<^verbatim>\<open>null\<close> into the struct
  changes nothing and is no error; any value but an object or \<^verbatim>\<open>null\<close> is a type error.
\<close>

fun HeartbeatStatus_members :: "(string \<times> json) list \<Rightarrow> HeartbeatStatus \<Rightarrow> HeartbeatStatus option" where
  "HeartbeatStatus_members [] hs = Some hs"
| "HeartbeatStatus_members ((key, v) # ms) hs =
     (if key_matches ''since_last_success'' key then
        (case v of
           JNumber x \<Rightarrow> HeartbeatStatus_members ms (hs\<lparr>SinceLastSuccess := x\<rparr>)
         | JNull \<Rightarrow> HeartbeatStatus_members ms hs
         | _ \<Rightarrow> None)
      else if key_matches ''last_ack_duration'' key then
        (case v of
           JNumber x \<Rightarrow> HeartbeatStatus_members ms (hs\<lparr>LastAckDuration := Some x\<rparr>)
         | JNull \<Rightarrow> HeartbeatStatus_members ms (hs\<lparr>LastAckDuration := None\<rparr>)
         | _ \<Rightarrow> None)
      else HeartbeatStatus_members ms hs)"

definition unmarshal_HeartbeatStatus :: "json \<Rightarrow> HeartbeatStatus option" where
  "unmarshal_HeartbeatStatus v =
     (case v of
        JObject ms \<Rightarrow> HeartbeatStatus_members ms zero_HeartbeatStatus
      | JNull \<Rightarrow> Some zero_HeartbeatStatus
      | _ \<Rightarrow> None)"

text \<open>
  The auxiliary struct of line 73: its own field \<^verbatim>\<open>HeartbeatStatuses\<close>, of type
  \<^verbatim>\<open>[][]interface{}\<close>, takes the member \<^verbatim>\<open>heartbeat_statuses\<close> (it hides the field of
  the same name of the embedded \<^verbatim>\<open>*Alias\<close>), and the other fields of \<^verbatim>\<open>Alias\<close> are
  those of the receiver.
\<close>

record aux =
  aux_HeartbeatStatuses :: "json list list"
  Alias :: ValidatorData

text \<open>
  The fields' types. \<^verbatim>\<open>null\<close> makes a slice nil (of length 0) and leaves a string as it
  is. An array is decoded into the slice the field holds, element by element: a
  \<^verbatim>\<open>null\<close> element of a slice of strings keeps the string the slice held at that index
  (left there by an earlier member of the same field), and is the empty string at an index
  the slice did not have.
\<close>

definition unmarshal_row :: "json \<Rightarrow> json list option" where
  "unmarshal_row v = (case v of JArray xs \<Rightarrow> Some xs | JNull \<Rightarrow> Some [] | _ \<Rightarrow> None)"

definition unmarshal_rows :: "json \<Rightarrow> json list list option" where
  "unmarshal_rows v =
     (case v of JArray rows \<Rightarrow> those (map unmarshal_row rows) | JNull \<Rightarrow> Some [] | _ \<Rightarrow> None)"

definition unmarshal_string :: "json \<Rightarrow> string \<Rightarrow> string option" where
  "unmarshal_string v current =
     (case v of JString s \<Rightarrow> Some s | JNull \<Rightarrow> Some current | _ \<Rightarrow> None)"

fun unmarshal_elements :: "json list \<Rightarrow> string list \<Rightarrow> string list option" where
  "unmarshal_elements [] current = Some []"
| "unmarshal_elements (x # xs) current =
     (case unmarshal_string x (case current of [] \<Rightarrow> [] | old # olds \<Rightarrow> old) of
        None \<Rightarrow> None
      | Some s \<Rightarrow>
          (case unmarshal_elements xs (tl current) of
             None \<Rightarrow> None
           | Some ss \<Rightarrow> Some (s # ss)))"

definition unmarshal_strings :: "json \<Rightarrow> string list \<Rightarrow> string list option" where
  "unmarshal_strings v current =
     (case v of
        JArray xs \<Rightarrow> unmarshal_elements xs current
      | JNull \<Rightarrow> Some []
      | _ \<Rightarrow> None)"

fun aux_members :: "(string \<times> json) list \<Rightarrow> aux \<Rightarrow> aux option" where
  "aux_members [] a = Some a"
| "aux_members ((key, v) # ms) a =
     (if key_matches ''heartbeat_statuses'' key then
        (case unmarshal_rows v of
           None \<Rightarrow> None
         | Some rows \<Rightarrow> aux_members ms (a\<lparr>aux_HeartbeatStatuses := rows\<rparr>))
      else if key_matches ''home_validator'' key then
        (case unmarshal_string v (HomeValidator (Alias a)) of
           None \<Rightarrow> None
         | Some s \<Rightarrow> aux_members ms (a\<lparr>Alias := (Alias a)\<lparr>HomeValidator := s\<rparr>\<rparr>))
      else if key_matches ''validators_missing_heartbeat'' key then
        (case unmarshal_strings v (ValidatorsMissingHeartbeat (Alias a)) of
           None \<Rightarrow> None
         | Some ss \<Rightarrow> aux_members ms (a\<lparr>Alias := (Alias a)\<lparr>ValidatorsMissingHeartbeat := ss\<rparr>\<rparr>))
      else aux_members ms a)"

text \<open>
  \<^verbatim>\<open>json.Unmarshal(data, &aux)\<close> (line 81) is given a pointer to the pointer \<^verbatim>\<open>aux\<close>:
  for \<^verbatim>\<open>null\<close> it sets \<^verbatim>\<open>aux\<close> to nil and returns no error (\<open>Inr None\<close>).
\<close>

definition unmarshal_aux :: "aux \<Rightarrow> json \<Rightarrow> error + aux option" where
  "unmarshal_aux a data =
     (case data of
        JObject ms \<Rightarrow> (case aux_members ms a of None \<Rightarrow> Inl UnmarshalTypeError | Some a' \<Rightarrow> Inr (Some a'))
      | JNull \<Rightarrow> Inr None
      | _ \<Rightarrow> Inl UnmarshalTypeError)"

text \<open>
  The loop of lines 87 to 108 over the rows, filling the map: \<open>remarshal (entry ! 1)\<close> are
  the \<^verbatim>\<open>valueBytes\<close> of line 97.
\<close>

fun convert_entries ::
    "json list list \<Rightarrow> (string \<rightharpoonup> HeartbeatStatus) \<Rightarrow> (string \<rightharpoonup> HeartbeatStatus)" where
  "convert_entries [] m = m"
| "convert_entries (entry # rest) m =
     (if length entry \<noteq> 2 then convert_entries rest m
      else
        (case entry ! 0 of
           JString key \<Rightarrow>
             (case unmarshal_HeartbeatStatus (remarshal (entry ! 1)) of
                None \<Rightarrow> convert_entries rest m
              | Some heartbeatStatus \<Rightarrow> convert_entries rest (m(key \<mapsto> heartbeatStatus)))
         | _ \<Rightarrow> convert_entries rest m))"

text \<open>
  \<^verbatim>\<open>UnmarshalJSON\<close>, with the receiver \<open>vd\<close>. When \<^verbatim>\<open>aux\<close> is nil, reading
  \<^verbatim>\<open>aux.HeartbeatStatuses\<close> at line 87 panics.
\<close>

definition UnmarshalJSON :: "ValidatorData \<Rightarrow> json \<Rightarrow> ValidatorData result" where
  "UnmarshalJSON vd data =
     (case unmarshal_aux \<lparr>aux_HeartbeatStatuses = [], Alias = vd\<rparr> data of
        Inl err \<Rightarrow> Err err
      | Inr None \<Rightarrow> Panic NilPointerDereference
      | Inr (Some a) \<Rightarrow>
          Ok ((Alias a)\<lparr>HeartbeatStatuses := convert_entries (aux_HeartbeatStatuses a) Map.empty\<rparr>))"

definition zero_ValidatorData :: ValidatorData where
  "zero_ValidatorData =
     \<lparr>HomeValidator = [], ValidatorsMissingHeartbeat = [], HeartbeatStatuses = Map.empty\<rparr>"

subsection \<open>One iteration of the loop of \<^verbatim>\<open>main\<close>\<close>

text \<open>
  A \<^verbatim>\<open>json.Decoder\<close> over the opened file. The file holds a sequence of JSON values
  (\<open>upcoming\<close>), followed either by the end of the file or by bytes that are no JSON value
  (\<open>broken\<close>). \<^verbatim>\<open>Decode\<close> into a \<^verbatim>\<open>json.RawMessage\<close> returns the next value; at the end
  of the file it returns \<^verbatim>\<open>io.EOF\<close>; at bytes that are no JSON value it returns a syntax
  error (or \<^verbatim>\<open>io.ErrUnexpectedEOF\<close>), which the decoder keeps and returns from every later
  call.
\<close>

record Decoder =
  upcoming :: "json list"
  broken :: bool

datatype decode_error = EOF | SyntaxError

definition Decode :: "Decoder \<Rightarrow> (decode_error + json) \<times> Decoder" where
  "Decode decoder =
     (case upcoming decoder of
        rawEntry # rest \<Rightarrow> (Inr rawEntry, decoder\<lparr>upcoming := rest\<rparr>)
      | [] \<Rightarrow> (if broken decoder then (Inl SyntaxError, decoder) else (Inl EOF, decoder)))"

text \<open>
  The loop of lines 135 to 145. It leaves only at \<^verbatim>\<open>EOF\<close>; after any other error it
  prints a line and calls \<^verbatim>\<open>Decode\<close> again. The result \<open>None\<close> stands for a loop that
  never ends.
\<close>

partial_function (option) read_entries ::
    "Decoder \<Rightarrow> json option \<Rightarrow> event list \<Rightarrow> (json option \<times> event list) option" where
  "read_entries decoder lastRawEntry printed =
     (case Decode decoder of
        (Inr rawEntry, decoder') \<Rightarrow> read_entries decoder' (Some rawEntry) printed
      | (Inl EOF, decoder') \<Rightarrow> Some (lastRawEntry, printed)
      | (Inl SyntaxError, decoder') \<Rightarrow>
          read_entries decoder' lastRawEntry (printed @ [Log ErrorDecodingJSONLine]))"

text \<open>
  \<^verbatim>\<open>json.Unmarshal(lastRawEntry, &logArray)\<close> (line 152): an array gives its elements,
  \<^verbatim>\<open>null\<close> gives the nil slice and no error, any other value is a type error.
\<close>

definition unmarshal_logArray :: "json \<Rightarrow> json list option" where
  "unmarshal_logArray raw = (case raw of JArray xs \<Rightarrow> Some xs | JNull \<Rightarrow> Some [] | _ \<Rightarrow> None)"

text \<open>
  How the body of the loop is left: it runs on to \<^verbatim>\<open>file.Close()\<close> and the sleep, or a
  \<^verbatim>\<open>continue\<close> starts the next iteration at once, or the program panics.
\<close>

datatype flow = RunsOn | Continue | Panics panic

text \<open>
  Lines 148 to 182, for the last entry read: \<open>remarshal (logArray ! 1)\<close> are the
  \<^verbatim>\<open>validatorDataBytes\<close> of line 160.
\<close>

definition process_last_entry ::
    "(float64 \<Rightarrow> string) \<Rightarrow> string \<Rightarrow> Config \<Rightarrow> json \<Rightarrow> event list \<times> flow" where
  "process_last_entry fmt_float ptr_text config lastRawEntry =
     (let printed = [Log (RawJSONContent lastRawEntry)] in
      case unmarshal_logArray lastRawEntry of
        None \<Rightarrow> (printed @ [Log CouldNotUnmarshalAsArray], RunsOn)
      | Some logArray \<Rightarrow>
          if length logArray = 2 then
            (case logArray ! 0 of
               JString timestamp \<Rightarrow>
                 (case UnmarshalJSON zero_ValidatorData (remarshal (logArray ! 1)) of
                    Err err \<Rightarrow> (printed @ [Log ErrorDecodingValidatorData], Continue)
                  | Panic p \<Rightarrow> (printed, Panics p)
                  | Ok validatorData \<Rightarrow>
                      (case processLogEntry fmt_float ptr_text
                              \<lparr>Timestamp = timestamp, Validator = validatorData\<rparr> config of
                         (trace, None) \<Rightarrow> (printed @ trace, RunsOn)
                       | (trace, Some p) \<Rightarrow> (printed @ trace, Panics p)))
             | other \<Rightarrow> (printed @ [Log (ExpectedTimestamp other)], Continue))
          else (printed @ [Log CouldNotUnmarshalAsArray], RunsOn))"

text \<open>
  A \<^verbatim>\<open>time.Duration\<close> is a signed 64-bit count of nanoseconds; the product of line 186
  wraps around.
\<close>

definition wrap64 :: "int \<Rightarrow> int" where
  "wrap64 n = (n + 2 ^ 63) mod 2 ^ 64 - 2 ^ 63"

definition Second :: int where
  "Second = 1000000000"

text \<open>
  One iteration (lines 126 to 186), from the result of \<^verbatim>\<open>os.Open\<close>: the trace and the
  way the iteration is left, or \<open>None\<close> when the reading loop never ends.
\<close>

definition poll_cycle ::
    "(float64 \<Rightarrow> string) \<Rightarrow> string \<Rightarrow> Config \<Rightarrow> error + Decoder \<Rightarrow> (event list \<times> flow) option" where
  "poll_cycle fmt_float ptr_text config opened =
     (case opened of
        Inl err \<Rightarrow> Some ([Log ErrorOpeningLogFile, Sleep (wrap64 (30 * Second))], Continue)
      | Inr decoder \<Rightarrow>
          (case read_entries decoder None [] of
             None \<Rightarrow> None
           | Some (lastRawEntry, printed) \<Rightarrow>
               (let closing = [FileClose, Sleep (wrap64 (CheckInterval config * Second))] in
                case lastRawEntry of
                  None \<Rightarrow> Some (printed @ closing, RunsOn)
                | Some raw \<Rightarrow>
                    (case process_last_entry fmt_float ptr_text config raw of
                       (trace, RunsOn) \<Rightarrow> Some (printed @ trace @ closing, RunsOn)
                     | (trace, how) \<Rightarrow> Some (printed @ trace, how)))))"

subsection \<open>The locator\<close>

text \<open>
  \<^verbatim>\<open>os.ReadDir\<close> is a parameter: it returns the entries of a directory, or an error.
\<close>

record DirEntry =
  Name :: string
  IsDir :: bool

type_synonym read_dir = "string \<Rightarrow> error + DirEntry list"

text \<open>The loop of lines 237 to 241; strings compare byte by byte.\<close>

fun latest_of :: "string \<Rightarrow> string list \<Rightarrow> string" where
  "latest_of latestDir [] = latestDir"
| "latest_of latestDir (dir # dirs) =
     (if dir > latestDir then latest_of dir dirs else latest_of latestDir dirs)"

definition findLatestDir :: "read_dir \<Rightarrow> string \<Rightarrow> error + string" where
  "findLatestDir ReadDir basePath =
     (case ReadDir basePath of
        Inl err \<Rightarrow> Inl err
      | Inr entries \<Rightarrow>
          (let dirs = map Name (filter IsDir entries) in
           if length dirs = 0 then Inl (NoDirectoriesFound basePath)
           else Inr (basePath @ ''/'' @ latest_of (dirs ! 0) dirs)))"

text \<open>
  \<^verbatim>\<open>strconv.Atoi\<close> on a 64-bit platform: an optional sign, then one decimal digit or more
  and nothing else; a value outside the range of \<^verbatim>\<open>int\<close> is an error.
\<close>

definition digit :: "char \<Rightarrow> nat option" where
  "digit c = (if CHR ''0'' \<le> c \<and> c \<le> CHR ''9'' then Some (of_char c - 48) else None)"

fun digits :: "string \<Rightarrow> nat \<Rightarrow> nat option" where
  "digits [] n = Some n"
| "digits (c # cs) n = (case digit c of None \<Rightarrow> None | Some d \<Rightarrow> digits cs (n * 10 + d))"

definition Atoi :: "string \<Rightarrow> int option" where
  "Atoi s =
     (let negative = (take 1 s = ''-'');
          body = (if take 1 s = ''-'' \<or> take 1 s = ''+'' then drop 1 s else s)
      in if body = [] then None
         else
           (case digits body 0 of
              None \<Rightarrow> None
            | Some n \<Rightarrow>
                (let i = (if negative then - int n else int n)
                 in if - (2 ^ 63) \<le> i \<and> i < 2 ^ 63 then Some i else None)))"

text \<open>The comparator of lines 263 to 270, on the two names it reads from the slice.\<close>

definition less_file :: "string \<Rightarrow> string \<Rightarrow> bool" where
  "less_file fi fj =
     (case (Atoi fi, Atoi fj) of
        (Some iInt, Some jInt) \<Rightarrow> iInt < jInt
      | _ \<Rightarrow> fi < fj)"

text \<open>
  \<^verbatim>\<open>sort.Slice\<close> is a parameter \<open>sort_slice\<close>: it is given the comparator and the slice
  and returns the slice as the call leaves it.
\<close>

definition findLatestFile ::
    "((string \<Rightarrow> string \<Rightarrow> bool) \<Rightarrow> string list \<Rightarrow> string list) \<Rightarrow> read_dir \<Rightarrow> string \<Rightarrow> error + string" where
  "findLatestFile sort_slice ReadDir dirPath =
     (case ReadDir dirPath of
        Inl err \<Rightarrow> Inl err
      | Inr entries \<Rightarrow>
          (let files = map Name (filter (\<lambda>entry. \<not> IsDir entry) entries) in
           if length files = 0 then Inl (NoFilesFound dirPath)
           else
             (let sorted_files = sort_slice less_file files;
                  latestFile = sorted_files ! (length sorted_files - 1)
              in Inr (dirPath @ ''/'' @ latestFile))))"

definition findLatestLogFile ::
    "((string \<Rightarrow> string \<Rightarrow> bool) \<Rightarrow> string list \<Rightarrow> string list) \<Rightarrow> read_dir \<Rightarrow> string \<Rightarrow> error + string" where
  "findLatestLogFile sort_slice ReadDir basePath =
     (case findLatestDir ReadDir basePath of
        Inl err \<Rightarrow> Inl (FailedToFindLatestDateDirectory err)
      | Inr latestDateDir \<Rightarrow>
          (case findLatestFile sort_slice ReadDir latestDateDir of
             Inl err \<Rightarrow> Inl (FailedToFindLatestLogFile err)
           | Inr latestLogFile \<Rightarrow> Inr latestLogFile))"

text \<open>
  The insertion sort of package \<^verbatim>\<open>sort\<close>, which \<^verbatim>\<open>sort.Slice\<close> runs on a short slice
  (of at most twelve elements since Go 1.19): each element moves left while it is less than
  its left neighbour. \<open>insert_left\<close> holds the sorted part in reverse. It is the sort on
  which the theorems about \<^verbatim>\<open>findLatestFile\<close> are instantiated.
\<close>

fun insert_left :: "('a \<Rightarrow> 'a \<Rightarrow> bool) \<Rightarrow> 'a \<Rightarrow> 'a list \<Rightarrow> 'a list" where
  "insert_left lt x [] = [x]"
| "insert_left lt x (y # ys) = (if lt x y then y # insert_left lt x ys else x # y # ys)"

definition insertionSort :: "('a \<Rightarrow> 'a \<Rightarrow> bool) \<Rightarrow> 'a list \<Rightarrow> 'a list" where
  "insertionSort lt xs = rev (foldl (\<lambda>sorted_part x. insert_left lt x sorted_part) [] xs)"

subsection \<open>Sample inputs\<close>

text \<open>Concrete inputs on which the theorems below are instantiated.\<close>

definition sample_config :: Config where
  "sample_config =
     \<lparr>SlackToken = ''xoxb'', SlackChannel = ''#alerts'', PagerDutyAPIKey = ''routing'',
      PagerDutyServiceID = ''P1'', BasePath = ''/logs'', ValidatorAddress = ''0xabc'',
      CheckInterval = 60\<rparr>"

definition sample_fmt :: "float64 \<Rightarrow> string" where
  "sample_fmt x = (if x = 0 then ''0'' else if x = 10 then ''10'' else if x = 41 then ''41'' else ''?'')"

definition sample_entry :: "(string \<rightharpoonup> HeartbeatStatus) \<Rightarrow> LogArrayEntry" where
  "sample_entry statuses =
     \<lparr>Timestamp = ''2024-01-02T00:00:00'',
      Validator = \<lparr>HomeValidator = ''0xabc'', ValidatorsMissingHeartbeat = [],
                   HeartbeatStatuses = statuses\<rparr>\<rparr>"

definition sample_status :: "float64 \<Rightarrow> float64 option \<Rightarrow> HeartbeatStatus" where
  "sample_status s d = \<lparr>SinceLastSuccess = s, LastAckDuration = d\<rparr>"

definition sample_status_json :: "float64 \<Rightarrow> json \<Rightarrow> json" where
  "sample_status_json s d = JObject [(''last_ack_duration'', d), (''since_last_success'', JNumber s)]"

definition sample_line :: "json \<Rightarrow> json" where
  "sample_line status =
     JArray [JString ''2024-01-02T00:00:00'',
             JObject [(''heartbeat_statuses'', JArray [JArray [JString ''0xabc'', status]]),
                      (''home_validator'', JString ''0xabc''),
                      (''validators_missing_heartbeat'', JArray [])]]"

definition sample_file :: "json list \<Rightarrow> Decoder" where
  "sample_file entries = \<lparr>upcoming = entries, broken = False\<rparr>"

definition sample_ReadDir :: read_dir where
  "sample_ReadDir path =
     (if path = ''/logs'' then
        Inr [\<lparr>Name = ''2023-12-31'', IsDir = True\<rparr>, \<lparr>Name = ''2024-01-01'', IsDir = True\<rparr>,
             \<lparr>Name = ''2024-01-02'', IsDir = True\<rparr>, \<lparr>Name = ''README'', IsDir = False\<rparr>]
      else if path = ''/logs/2024-01-02'' then
        Inr [\<lparr>Name = ''10'', IsDir = False\<rparr>, \<lparr>Name = ''2'', IsDir = False\<rparr>,
             \<lparr>Name = ''9'', IsDir = False\<rparr>, \<lparr>Name = ''old'', IsDir = True\<rparr>]
      else if path = ''/numbered'' then
        Inr [\<lparr>Name = ''10'', IsDir = True\<rparr>, \<lparr>Name = ''9'', IsDir = True\<rparr>]
      else if path = ''/empty'' then Inr []
      else Inl OSError)"

section \<open>The evaluator\<close>

lemma found_condition_iff:
  "found_condition status =
     Inr (SinceLastSuccess status > 40
          \<or> (\<exists>d. LastAckDuration status = Some d \<and> d > float64_0_02)
          \<or> LastAckDuration status = None)"
  by (cases "LastAckDuration status")
     (auto simp: found_condition_def or_else_def and_also_def compare_deref_def deref_def)

lemma not_found_condition_zero: "not_found_condition zero_HeartbeatStatus = Inr True"
  by (simp add: not_found_condition_def or_else_def zero_HeartbeatStatus_def)

lemma sample_lookup:
  "HeartbeatStatuses (Validator (sample_entry statuses)) (ValidatorAddress sample_config) =
     statuses ''0xabc''"
  by (simp add: sample_entry_def sample_config_def)

lemma sample_durations: "\<not> float64_0_02 < float64_0_01" "float64_0_02 < float64_0_03"
  by (simp_all add: float64_0_01_def float64_0_02_def float64_0_03_def)

text \<open>
  Claim C1. When the map holds the configured address, \<^verbatim>\<open>processLogEntry\<close> sends an alert
  exactly when \<^verbatim>\<open>since_last_success\<close> exceeds 40, or \<^verbatim>\<open>last_ack_duration\<close> is present
  and exceeds 0.02 (the \<^verbatim>\<open>float64\<close> of that literal), or \<^verbatim>\<open>last_ack_duration\<close> is
  absent; it does not panic; and for \<^verbatim>\<open>since_last_success = 10\<close> and
  \<^verbatim>\<open>last_ack_duration = 0.01\<close> it sends none.
\<close>

theorem alert_iff_threshold_breached:
  "HeartbeatStatuses (Validator logEntry) (ValidatorAddress config) = Some status \<Longrightarrow>
     ((alerts (fst (processLogEntry fmt_float ptr_text logEntry config)) \<noteq> []) =
        (SinceLastSuccess status > 40
         \<or> (\<exists>d. LastAckDuration status = Some d \<and> d > float64_0_02)
         \<or> LastAckDuration status = None))
     \<and> snd (processLogEntry fmt_float ptr_text logEntry config) = None
     \<and> (SinceLastSuccess status = 10 \<and> LastAckDuration status = Some float64_0_01 \<longrightarrow>
          alerts (fst (processLogEntry fmt_float ptr_text logEntry config)) = [])"
  by (auto simp: processLogEntry_def found_condition_iff Let_def alerts_def send_alerts_def
        float64_0_01_def float64_0_02_def)

theorem alert_iff_threshold_breached_witness:
  "alerts (fst (processLogEntry sample_fmt ''0xc000012120''
       (sample_entry [''0xabc'' \<mapsto> sample_status 41 (Some float64_0_01)]) sample_config)) \<noteq> []
   \<and> alerts (fst (processLogEntry sample_fmt ''0xc000012120''
       (sample_entry [''0xabc'' \<mapsto> sample_status 10 (Some float64_0_03)]) sample_config)) \<noteq> []
   \<and> alerts (fst (processLogEntry sample_fmt ''0xc000012120''
       (sample_entry [''0xabc'' \<mapsto> sample_status 10 None]) sample_config)) \<noteq> []
   \<and> alerts (fst (processLogEntry sample_fmt ''0xc000012120''
       (sample_entry [''0xabc'' \<mapsto> sample_status 10 (Some float64_0_01)]) sample_config)) = []"
proof -
  have found: "\<And>status. HeartbeatStatuses (Validator (sample_entry [''0xabc'' \<mapsto> status]))
             (ValidatorAddress sample_config) = Some status"
    by (simp add: sample_lookup)
  show ?thesis
    using alert_iff_threshold_breached [OF found, of sample_fmt "''0xc000012120''"
          "sample_status 41 (Some float64_0_01)"]
      alert_iff_threshold_breached [OF found, of sample_fmt "''0xc000012120''"
          "sample_status 10 (Some float64_0_03)"]
      alert_iff_threshold_breached [OF found, of sample_fmt "''0xc000012120''"
          "sample_status 10 None"]
      alert_iff_threshold_breached [OF found, of sample_fmt "''0xc000012120''"
          "sample_status 10 (Some float64_0_01)"]
    by (simp add: sample_status_def sample_durations)
qed

lemma alert_text_zero:
  "alert_text fmt_float ptr_text address zero_HeartbeatStatus =
     ''Alert for HyperLiq validator '' @ address @ '':'' @ [CHR 0x0A] @
     ''since_last_success = '' @ fmt_float 0 @ '', last_ack_duration = <nil>''"
  by (simp add: alert_text_def zero_HeartbeatStatus_def)

lemma processLogEntry_absent:
  "HeartbeatStatuses (Validator logEntry) (ValidatorAddress config) = None \<Longrightarrow>
     processLogEntry fmt_float ptr_text logEntry config =
       (Log (TimestampLine (Timestamp logEntry)) #
          send_alerts config (alert_text fmt_float ptr_text (ValidatorAddress config) zero_HeartbeatStatus),
        None)"
  by (simp add: processLogEntry_def not_found_condition_zero)

text \<open>
  Claim C3 as stated: when the configured address is not in the map, evaluating the snapshot
  dereferences the nil \<^verbatim>\<open>LastAckDuration\<close> of the zero status. It does not: on the sample
  snapshot with an empty map the call ends without a panic.
\<close>

theorem absent_address_dereference_counterexample:
  "HeartbeatStatuses (Validator (sample_entry Map.empty)) (ValidatorAddress sample_config) = None
   \<and> snd (processLogEntry sample_fmt ''0xc000012120'' (sample_entry Map.empty) sample_config)
       \<noteq> Some NilPointerDereference"
  by (simp add: sample_lookup processLogEntry_def not_found_condition_zero)

text \<open>
  Claim C3, amended. When the configured address is not in the map, \<^verbatim>\<open>processLogEntry\<close>
  takes the \<^verbatim>\<open>else\<close> branch with the zero status (\<^verbatim>\<open>since_last_success\<close> 0,
  \<^verbatim>\<open>last_ack_duration\<close> nil). The left operand \<^verbatim>\<open>status.SinceLastSuccess <= 0\<close> holds
  and decides the condition whatever the right operand is, so the nil pointer is not
  dereferenced; the call does not panic and sends both alerts, with
  \<^verbatim>\<open>since_last_success\<close> printed as that of 0 and \<^verbatim>\<open>last_ack_duration\<close> as \<^verbatim>\<open><nil>\<close>.
\<close>

theorem absent_address_always_alerts:
  "HeartbeatStatuses (Validator logEntry) (ValidatorAddress config) = None \<Longrightarrow>
     SinceLastSuccess zero_HeartbeatStatus = 0
     \<and> LastAckDuration zero_HeartbeatStatus = None
     \<and> (\<forall>right. or_else (Inr (SinceLastSuccess zero_HeartbeatStatus \<le> 0)) right = Inr True)
     \<and> not_found_condition zero_HeartbeatStatus = Inr True
     \<and> processLogEntry fmt_float ptr_text logEntry config =
         ([Log (TimestampLine (Timestamp logEntry)),
           SlackAlert (SlackChannel config)
             (''Alert for HyperLiq validator '' @ ValidatorAddress config @ '':'' @ [CHR 0x0A] @
              ''since_last_success = '' @ fmt_float 0 @ '', last_ack_duration = <nil>''),
           PagerDutyAlert (PagerDutyAPIKey config)
             (''Alert for HyperLiq validator '' @ ValidatorAddress config @ '':'' @ [CHR 0x0A] @
              ''since_last_success = '' @ fmt_float 0 @ '', last_ack_duration = <nil>'')],
          None)"
proof -
  assume absent: "HeartbeatStatuses (Validator logEntry) (ValidatorAddress config) = None"
  have fields: "SinceLastSuccess zero_HeartbeatStatus = 0" "LastAckDuration zero_HeartbeatStatus = None"
    by (simp_all add: zero_HeartbeatStatus_def)
  have left: "\<forall>right. or_else (Inr (SinceLastSuccess zero_HeartbeatStatus \<le> 0)) right = Inr True"
    by (simp add: fields or_else_def)
  show ?thesis
    unfolding processLogEntry_absent [OF absent] alert_text_zero send_alerts_def
    using fields left not_found_condition_zero by simp
qed

theorem absent_address_always_alerts_witness:
  "processLogEntry sample_fmt ''0xc000012120'' (sample_entry Map.empty) sample_config =
     ([Log (TimestampLine ''2024-01-02T00:00:00''),
       SlackAlert ''#alerts''
         (''Alert for HyperLiq validator 0xabc:'' @ [CHR 0x0A] @
          ''since_last_success = 0, last_ack_duration = <nil>''),
       PagerDutyAlert ''routing''
         (''Alert for HyperLiq validator 0xabc:'' @ [CHR 0x0A] @
          ''since_last_success = 0, last_ack_duration = <nil>'')],
      None)"
proof -
  have absent: "HeartbeatStatuses (Validator (sample_entry Map.empty)) (ValidatorAddress sample_config) = None"
    by (simp add: sample_lookup)
  show ?thesis
    using absent_address_always_alerts [OF absent, of sample_fmt "''0xc000012120''"]
    by (simp add: sample_entry_def sample_config_def sample_fmt_def)
qed

lemma processLogEntry_alerts:
  "alerts (fst (processLogEntry fmt_float ptr_text logEntry config)) \<noteq> [] \<Longrightarrow>
     alerts (fst (processLogEntry fmt_float ptr_text logEntry config)) =
       send_alerts config
         (alert_text fmt_float ptr_text (ValidatorAddress config)
            (case HeartbeatStatuses (Validator logEntry) (ValidatorAddress config) of
               Some found \<Rightarrow> found | None \<Rightarrow> zero_HeartbeatStatus))"
  by (auto simp: processLogEntry_def found_condition_iff not_found_condition_zero Let_def
        alerts_def send_alerts_def split: option.splits if_splits)

lemma sublist_address:
  "sublist address
     (''Alert for HyperLiq validator '' @ address @ '':'' @ [CHR 0x0A] @
      ''since_last_success = '' @ since @ '', last_ack_duration = '' @ rendering)"
  by (rule sublist_appendI)

lemma sublist_since:
  "sublist since
     (''Alert for HyperLiq validator '' @ address @ '':'' @ [CHR 0x0A] @
      ''since_last_success = '' @ since @ '', last_ack_duration = '' @ rendering)"
proof -
  have "sublist since
     ((''Alert for HyperLiq validator '' @ address @ '':'' @ [CHR 0x0A] @
      ''since_last_success = '') @ since @ ('', last_ack_duration = '' @ rendering))"
    by (rule sublist_appendI)
  then show ?thesis by simp
qed

text \<open>
  For a present \<^verbatim>\<open>last_ack_duration\<close> the message holds the text of the pointer, whatever
  the value behind it.
\<close>

lemma present_duration_prints_pointer:
  "alert_text fmt_float ptr_text address \<lparr>SinceLastSuccess = s, LastAckDuration = Some d\<rparr> =
     alert_text fmt_float ptr_text address \<lparr>SinceLastSuccess = s, LastAckDuration = Some d'\<rparr>"
  by (simp add: alert_text_def)

lemma sample_found:
  "HeartbeatStatuses (Validator (sample_entry [''0xabc'' \<mapsto> status]))
      (ValidatorAddress sample_config) = Some status"
  by (simp add: sample_lookup)

lemma sample_alerts:
  "SinceLastSuccess status > 40 \<or> LastAckDuration status = None
     \<or> (\<exists>d. LastAckDuration status = Some d \<and> d > float64_0_02) \<Longrightarrow>
   alerts (fst (processLogEntry fmt_float ptr_text
       (sample_entry [''0xabc'' \<mapsto> status]) sample_config)) =
     send_alerts sample_config (alert_text fmt_float ptr_text (ValidatorAddress sample_config) status)"
  unfolding processLogEntry_def Let_def sample_found
  by (auto simp: found_condition_iff alerts_def send_alerts_def)

text \<open>
  Claim C9 as stated: the message embeds the value of \<^verbatim>\<open>last_ack_duration\<close> and renders
  an absent one as \<^verbatim>\<open>none\<close>. On the sample status (41, absent) the message ends in
  \<^verbatim>\<open><nil>\<close> and the word \<^verbatim>\<open>none\<close> does not occur in it; on the sample status (10, 41)
  the message ends in the text of the pointer and \<^verbatim>\<open>41\<close> does not occur in it.
\<close>

theorem alert_message_rendering_counterexample:
  "alerts (fst (processLogEntry sample_fmt ''0xc000012120''
       (sample_entry [''0xabc'' \<mapsto> sample_status 41 None]) sample_config)) =
     [SlackAlert ''#alerts''
        (''Alert for HyperLiq validator 0xabc:'' @ [CHR 0x0A] @
         ''since_last_success = 41, last_ack_duration = <nil>''),
      PagerDutyAlert ''routing''
        (''Alert for HyperLiq validator 0xabc:'' @ [CHR 0x0A] @
         ''since_last_success = 41, last_ack_duration = <nil>'')]
   \<and> \<not> sublist ''none''
        (''Alert for HyperLiq validator 0xabc:'' @ [CHR 0x0A] @
         ''since_last_success = 41, last_ack_duration = <nil>'')
   \<and> alerts (fst (processLogEntry sample_fmt ''0xc000012120''
       (sample_entry [''0xabc'' \<mapsto> sample_status 10 (Some 41)]) sample_config)) =
     [SlackAlert ''#alerts''
        (''Alert for HyperLiq validator 0xabc:'' @ [CHR 0x0A] @
         ''since_last_success = 10, last_ack_duration = 0xc000012120''),
      PagerDutyAlert ''routing''
        (''Alert for HyperLiq validator 0xabc:'' @ [CHR 0x0A] @
         ''since_last_success = 10, last_ack_duration = 0xc000012120'')]
   \<and> sample_fmt 41 = ''41''
   \<and> \<not> sublist ''41''
        (''Alert for HyperLiq validator 0xabc:'' @ [CHR 0x0A] @
         ''since_last_success = 10, last_ack_duration = 0xc000012120'')"
proof -
  have no_none: "\<not> sublist ''none''
        (''Alert for HyperLiq validator 0xabc:'' @ [CHR 0x0A] @
         ''since_last_success = 41, last_ack_duration = <nil>'')"
    by code_simp
  have no_value: "\<not> sublist ''41''
        (''Alert for HyperLiq validator 0xabc:'' @ [CHR 0x0A] @
         ''since_last_success = 10, last_ack_duration = 0xc000012120'')"
    by code_simp
  have absent: "alerts (fst (processLogEntry sample_fmt ''0xc000012120''
       (sample_entry [''0xabc'' \<mapsto> sample_status 41 None]) sample_config)) =
     [SlackAlert ''#alerts''
        (''Alert for HyperLiq validator 0xabc:'' @ [CHR 0x0A] @
         ''since_last_success = 41, last_ack_duration = <nil>''),
      PagerDutyAlert ''routing''
        (''Alert for HyperLiq validator 0xabc:'' @ [CHR 0x0A] @
         ''since_last_success = 41, last_ack_duration = <nil>'')]"
  proof -
    have "SinceLastSuccess (sample_status 41 None) > 40"
      by (simp add: sample_status_def)
    then show ?thesis
      by (simp add: sample_alerts)
         (simp add: send_alerts_def alert_text_def sample_status_def sample_config_def sample_fmt_def)
  qed
  have present: "alerts (fst (processLogEntry sample_fmt ''0xc000012120''
       (sample_entry [''0xabc'' \<mapsto> sample_status 10 (Some 41)]) sample_config)) =
     [SlackAlert ''#alerts''
        (''Alert for HyperLiq validator 0xabc:'' @ [CHR 0x0A] @
         ''since_last_success = 10, last_ack_duration = 0xc000012120''),
      PagerDutyAlert ''routing''
        (''Alert for HyperLiq validator 0xabc:'' @ [CHR 0x0A] @
         ''since_last_success = 10, last_ack_duration = 0xc000012120'')]"
  proof -
    have "\<exists>d. LastAckDuration (sample_status 10 (Some 41)) = Some d \<and> d > float64_0_02"
      by (simp add: sample_status_def float64_0_02_def)
    then show ?thesis
      by (simp add: sample_alerts)
         (simp add: send_alerts_def alert_text_def sample_status_def sample_config_def sample_fmt_def)
  qed
  have printed: "sample_fmt 41 = ''41''"
    by (simp add: sample_fmt_def)
  show ?thesis
    by (intro conjI absent no_none present printed no_value)
qed

text \<open>
  Claim C9, amended. Whenever \<^verbatim>\<open>processLogEntry\<close> alerts, Slack and PagerDuty get the
  same message; it embeds the configured address and the printed \<^verbatim>\<open>since_last_success\<close>
  of the status evaluated (the one found, or the zero status), and it ends in the rendering
  of \<^verbatim>\<open>last_ack_duration\<close>, which is \<^verbatim>\<open><nil>\<close> when that is absent. For an absent
  \<^verbatim>\<open>last_ack_duration\<close> the message is thus a function of the snapshot and the address.
\<close>

theorem alert_message_contents:
  "alerts (fst (processLogEntry fmt_float ptr_text logEntry config)) \<noteq> [] \<Longrightarrow>
   status = (case HeartbeatStatuses (Validator logEntry) (ValidatorAddress config) of
               Some found \<Rightarrow> found | None \<Rightarrow> zero_HeartbeatStatus) \<Longrightarrow>
     \<exists>message rendering.
       alerts (fst (processLogEntry fmt_float ptr_text logEntry config)) =
         [SlackAlert (SlackChannel config) message, PagerDutyAlert (PagerDutyAPIKey config) message]
       \<and> message =
           ''Alert for HyperLiq validator '' @ ValidatorAddress config @ '':'' @ [CHR 0x0A] @
           ''since_last_success = '' @ fmt_float (SinceLastSuccess status) @
           '', last_ack_duration = '' @ rendering
       \<and> (LastAckDuration status = None \<longrightarrow> rendering = ''<nil>'')
       \<and> sublist (ValidatorAddress config) message
       \<and> sublist (fmt_float (SinceLastSuccess status)) message"
proof -
  assume fired: "alerts (fst (processLogEntry fmt_float ptr_text logEntry config)) \<noteq> []"
    and status: "status = (case HeartbeatStatuses (Validator logEntry) (ValidatorAddress config) of
               Some found \<Rightarrow> found | None \<Rightarrow> zero_HeartbeatStatus)"
  define rendering where
    "rendering = (case LastAckDuration status of None \<Rightarrow> ''<nil>'' | Some d \<Rightarrow> ptr_text)"
  define message where
    "message = ''Alert for HyperLiq validator '' @ ValidatorAddress config @ '':'' @ [CHR 0x0A] @
           ''since_last_success = '' @ fmt_float (SinceLastSuccess status) @
           '', last_ack_duration = '' @ rendering"
  have msg: "alert_text fmt_float ptr_text (ValidatorAddress config) status = message"
    unfolding message_def rendering_def by (simp add: alert_text_def)
  have evaluated: "(case HeartbeatStatuses (Validator logEntry) (ValidatorAddress config) of
               Some found \<Rightarrow> found | None \<Rightarrow> zero_HeartbeatStatus) = status"
    using status by simp
  have sent: "alerts (fst (processLogEntry fmt_float ptr_text logEntry config)) =
         [SlackAlert (SlackChannel config) message, PagerDutyAlert (PagerDutyAPIKey config) message]"
    using processLogEntry_alerts [OF fired] unfolding evaluated msg send_alerts_def .
  have nil: "LastAckDuration status = None \<longrightarrow> rendering = ''<nil>''"
    by (simp add: rendering_def)
  have address: "sublist (ValidatorAddress config) message"
    unfolding message_def by (rule sublist_address)
  have since: "sublist (fmt_float (SinceLastSuccess status)) message"
    unfolding message_def by (rule sublist_since)
  have "alerts (fst (processLogEntry fmt_float ptr_text logEntry config)) =
         [SlackAlert (SlackChannel config) message, PagerDutyAlert (PagerDutyAPIKey config) message]
       \<and> message =
           ''Alert for HyperLiq validator '' @ ValidatorAddress config @ '':'' @ [CHR 0x0A] @
           ''since_last_success = '' @ fmt_float (SinceLastSuccess status) @
           '', last_ack_duration = '' @ rendering
       \<and> (LastAckDuration status = None \<longrightarrow> rendering = ''<nil>'')
       \<and> sublist (ValidatorAddress config) message
       \<and> sublist (fmt_float (SinceLastSuccess status)) message"
    by (intro conjI sent message_def nil address since)
  then show ?thesis
    by (rule exI [where x = message, OF exI [where x = rendering]])
qed

theorem alert_message_contents_witness:
  "alerts (fst (processLogEntry sample_fmt ''0xc000012120''
       (sample_entry [''0xabc'' \<mapsto> sample_status 10 None]) sample_config)) =
     [SlackAlert ''#alerts''
        (''Alert for HyperLiq validator 0xabc:'' @ [CHR 0x0A] @
         ''since_last_success = 10, last_ack_duration = <nil>''),
      PagerDutyAlert ''routing''
        (''Alert for HyperLiq validator 0xabc:'' @ [CHR 0x0A] @
         ''since_last_success = 10, last_ack_duration = <nil>'')]"
proof -
  have found: "HeartbeatStatuses (Validator (sample_entry [''0xabc'' \<mapsto> sample_status 10 None]))
      (ValidatorAddress sample_config) = Some (sample_status 10 None)"
    by (simp add: sample_lookup)
  have fired: "alerts (fst (processLogEntry sample_fmt ''0xc000012120''
       (sample_entry [''0xabc'' \<mapsto> sample_status 10 None]) sample_config)) \<noteq> []"
    unfolding processLogEntry_def Let_def found
    by (simp add: found_condition_iff alerts_def send_alerts_def sample_status_def)
  have status: "sample_status 10 None =
      (case HeartbeatStatuses (Validator (sample_entry [''0xabc'' \<mapsto> sample_status 10 None]))
              (ValidatorAddress sample_config) of
         Some found \<Rightarrow> found | None \<Rightarrow> zero_HeartbeatStatus)"
    by (simp add: sample_lookup)
  obtain message rendering where
    sent: "alerts (fst (processLogEntry sample_fmt ''0xc000012120''
        (sample_entry [''0xabc'' \<mapsto> sample_status 10 None]) sample_config)) =
      [SlackAlert (SlackChannel sample_config) message, PagerDutyAlert (PagerDutyAPIKey sample_config) message]"
    and message: "message =
      ''Alert for HyperLiq validator '' @ ValidatorAddress sample_config @ '':'' @ [CHR 0x0A] @
      ''since_last_success = '' @ sample_fmt (SinceLastSuccess (sample_status 10 None)) @
      '', last_ack_duration = '' @ rendering"
    and nil: "LastAckDuration (sample_status 10 None) = None \<longrightarrow> rendering = ''<nil>''"
    using alert_message_contents [OF fired status] by (elim exE conjE) (rule that)
  have "rendering = ''<nil>''"
    using nil by (simp add: sample_status_def)
  then have "message = ''Alert for HyperLiq validator 0xabc:'' @ [CHR 0x0A] @
         ''since_last_success = 10, last_ack_duration = <nil>''"
    unfolding message by (simp add: sample_status_def sample_config_def sample_fmt_def)
  then show ?thesis
    unfolding sent by (simp add: sample_config_def)
qed

section \<open>The decoder\<close>

lemma convert_entries_append:
  "convert_entries (es1 @ es2) m = convert_entries es2 (convert_entries es1 m)"
  by (induction es1 arbitrary: m) (auto split: json.splits option.splits)

lemma pair_of_length_2: "length entry = 2 \<Longrightarrow> entry = [entry ! 0, entry ! 1]"
  by (cases entry; cases "tl entry") auto

lemma convert_entries_malformed:
  "length entry \<noteq> 2 \<or> (\<forall>key. entry ! 0 \<noteq> JString key) \<or> unmarshal_HeartbeatStatus (remarshal (entry ! 1)) = None \<Longrightarrow>
     convert_entries (entry # rest) m = convert_entries rest m"
  by (cases "entry ! 0") auto

lemma convert_entries_well_formed:
  "unmarshal_HeartbeatStatus (remarshal v) = Some hs \<Longrightarrow>
     convert_entries ([JString key, v] # rest) m = convert_entries rest (m(key \<mapsto> hs))"
  by simp

lemma well_formed_pairE:
  assumes "length entry = 2" and "entry ! 0 = JString key"
  obtains v where "entry = [JString key, v]"
  using assms pair_of_length_2 [of entry] by metis

lemma dom_convert_entries:
  "dom (convert_entries es m) =
     dom m \<union> {key. \<exists>v. [JString key, v] \<in> set es \<and> unmarshal_HeartbeatStatus (remarshal v) \<noteq> None}"
proof (induction es arbitrary: m)
  case Nil
  then show ?case by simp
next
  case (Cons entry es)
  show ?case
  proof (cases "length entry = 2 \<and> (\<exists>key. entry ! 0 = JString key) \<and> unmarshal_HeartbeatStatus (remarshal (entry ! 1)) \<noteq> None")
    case True
    then obtain key v hs where e: "entry = [JString key, v]" and hs: "unmarshal_HeartbeatStatus (remarshal v) = Some hs"
      by (metis well_formed_pairE nth_Cons_0 nth_Cons_Suc One_nat_def not_Some_eq)
    show ?thesis
      unfolding e convert_entries_well_formed [OF hs] Cons.IH using hs by auto
  next
    case False
    then have skip: "convert_entries (entry # es) m = convert_entries es m"
      using convert_entries_malformed [of entry es m] by blast
    have "\<And>key v. entry = [JString key, v] \<Longrightarrow> unmarshal_HeartbeatStatus (remarshal v) = None"
      using False by auto
    then show ?thesis
      unfolding skip Cons.IH by auto
  qed
qed

lemma convert_entries_no_later_pair:
  "(\<forall>v. [JString key, v] \<in> set es \<longrightarrow> unmarshal_HeartbeatStatus (remarshal v) = None) \<Longrightarrow>
     convert_entries es m key = m key"
proof (induction es arbitrary: m)
  case Nil
  then show ?case by simp
next
  case (Cons entry es)
  show ?case
  proof (cases "length entry = 2 \<and> (\<exists>k. entry ! 0 = JString k) \<and> unmarshal_HeartbeatStatus (remarshal (entry ! 1)) \<noteq> None")
    case True
    then obtain k v hs where e: "entry = [JString k, v]" and hs: "unmarshal_HeartbeatStatus (remarshal v) = Some hs"
      by (metis well_formed_pairE nth_Cons_0 nth_Cons_Suc One_nat_def not_Some_eq)
    have "k \<noteq> key" using Cons.prems e hs by auto
    have "convert_entries es (m(k \<mapsto> hs)) key = (m(k \<mapsto> hs)) key"
      by (rule Cons.IH) (use Cons.prems in auto)
    also have "\<dots> = m key" using \<open>k \<noteq> key\<close> by simp
    finally show ?thesis
      unfolding e convert_entries_well_formed [OF hs] .
  next
    case False
    then have "convert_entries (entry # es) m = convert_entries es m"
      using convert_entries_malformed [of entry es m] by blast
    then show ?thesis using Cons.IH [of m] Cons.prems by simp
  qed
qed

lemma unmarshal_rows_arrays: "unmarshal_rows (JArray (map JArray es)) = Some es"
proof -
  have "those (map unmarshal_row (map JArray es)) = Some es"
    by (induction es) (simp_all add: unmarshal_row_def)
  then show ?thesis by (simp add: unmarshal_rows_def)
qed

lemma key_matches_refl: "key_matches name name"
  by (simp add: key_matches_def)

lemma UnmarshalJSON_pairs:
  "UnmarshalJSON vd (JObject [(''heartbeat_statuses'', JArray (map JArray es))]) =
     Ok (vd\<lparr>HeartbeatStatuses := convert_entries es Map.empty\<rparr>)"
  by (simp add: UnmarshalJSON_def unmarshal_aux_def key_matches_refl unmarshal_rows_arrays)

lemma unmarshal_string_fails:
  "(unmarshal_string v current = None) = ((\<forall>s. v \<noteq> JString s) \<and> v \<noteq> JNull)"
  by (cases v) (simp_all add: unmarshal_string_def)

lemma unmarshal_elements_fails:
  "(unmarshal_elements xs current = None) =
     (\<exists>x \<in> set xs. unmarshal_string x [] = None)"
proof (induction xs arbitrary: current)
  case Nil
  then show ?case by simp
next
  case (Cons x xs)
  have head: "(unmarshal_string x (case current of [] \<Rightarrow> [] | old # olds \<Rightarrow> old) = None) =
      (unmarshal_string x [] = None)"
    by (simp add: unmarshal_string_fails)
  show ?case
  proof (cases "unmarshal_string x (case current of [] \<Rightarrow> [] | old # olds \<Rightarrow> old)")
    case None
    then show ?thesis using head by simp
  next
    case (Some s)
    then have ok: "unmarshal_string x [] \<noteq> None" using head by simp
    have "unmarshal_elements (x # xs) current =
        (case unmarshal_elements xs (tl current) of None \<Rightarrow> None | Some ss \<Rightarrow> Some (s # ss))"
      using Some by simp
    then have "(unmarshal_elements (x # xs) current = None) =
        (unmarshal_elements xs (tl current) = None)"
      by (simp split: option.splits)
    also have "\<dots> = (\<exists>y \<in> set xs. unmarshal_string y [] = None)"
      by (rule Cons.IH)
    also have "\<dots> = (\<exists>y \<in> set (x # xs). unmarshal_string y [] = None)"
      using ok by auto
    finally show ?thesis .
  qed
qed

lemma unmarshal_strings_fails:
  "(unmarshal_strings v current = None) = (unmarshal_strings v [] = None)"
  by (cases v) (simp_all add: unmarshal_strings_def unmarshal_elements_fails)


lemma aux_members_append:
  "aux_members (ms1 @ ms2) a =
     (case aux_members ms1 a of None \<Rightarrow> None | Some a1 \<Rightarrow> aux_members ms2 a1)"
  by (induction ms1 a rule: aux_members.induct) (simp_all split: option.splits)


lemma aux_members_fails:
  "(aux_members ms a = None) =
     (\<exists>(key, v) \<in> set ms.
        if key_matches ''heartbeat_statuses'' key then unmarshal_rows v = None
        else if key_matches ''home_validator'' key then unmarshal_string v [] = None
        else if key_matches ''validators_missing_heartbeat'' key then unmarshal_strings v [] = None
        else False)"
proof (induction ms arbitrary: a)
  case Nil
  then show ?case by simp
next
  case (Cons member ms)
  obtain key v where member: "member = (key, v)" by (cases member)
  have s1: "(unmarshal_string v [] = None) = (unmarshal_string v (HomeValidator (Alias a)) = None)"
    by (simp add: unmarshal_string_fails)
  have s2: "(unmarshal_strings v [] = None) =
      (unmarshal_strings v (ValidatorsMissingHeartbeat (Alias a)) = None)"
    by (rule unmarshal_strings_fails [symmetric])
  show ?case
    unfolding member by (simp add: Cons.IH s1 s2 split: option.splits)
qed

lemma aux_members_fails_alike:
  "(aux_members ms a = None) = (aux_members ms a' = None)"
  unfolding aux_members_fails ..

lemma aux_members_keeps_rows:
  "(\<forall>(key, v) \<in> set ms. \<not> key_matches ''heartbeat_statuses'' key) \<Longrightarrow>
   aux_members ms a = Some a' \<Longrightarrow> aux_HeartbeatStatuses a' = aux_HeartbeatStatuses a"
proof (induction ms arbitrary: a)
  case Nil
  then show ?case by simp
next
  case (Cons member ms)
  obtain key v where member: "member = (key, v)" by (cases member)
  have no: "\<not> key_matches ''heartbeat_statuses'' key"
    and rest: "\<forall>(key, v) \<in> set ms. \<not> key_matches ''heartbeat_statuses'' key"
    using Cons.prems(1) unfolding member by simp_all
  obtain a1 where a1: "aux_members ms a1 = Some a'"
    and rows: "aux_HeartbeatStatuses a1 = aux_HeartbeatStatuses a"
    using Cons.prems(2) no unfolding member
    by (auto split: if_splits option.splits)
  show ?case
    using Cons.IH [OF rest a1] rows by simp
qed


lemma UnmarshalJSON_members:
  assumes k: "key_matches ''heartbeat_statuses'' key"
    and later: "\<forall>(key', v') \<in> set ms2. \<not> key_matches ''heartbeat_statuses'' key'"
  shows "(case UnmarshalJSON vd (JObject (ms1 @ (key, JArray (map JArray es)) # ms2)) of
            Ok vd' \<Rightarrow> HeartbeatStatuses vd' = convert_entries es Map.empty
          | Err err \<Rightarrow> UnmarshalJSON vd (JObject (ms1 @ (key, JArray []) # ms2)) = Err err
          | Panic p \<Rightarrow> False)"
proof (cases "aux_members ms1 \<lparr>aux_HeartbeatStatuses = [], Alias = vd\<rparr>")
  case None
  then show ?thesis
    by (simp add: UnmarshalJSON_def unmarshal_aux_def aux_members_append)
next
  case (Some a1)
  have rows: "unmarshal_rows (JArray (map JArray es)) = Some es"
    by (rule unmarshal_rows_arrays)
  have no_rows: "unmarshal_rows (JArray []) = Some []"
    using unmarshal_rows_arrays [of "[]"] by simp
  have with_pairs: "aux_members (ms1 @ (key, JArray (map JArray es)) # ms2)
        \<lparr>aux_HeartbeatStatuses = [], Alias = vd\<rparr> =
      aux_members ms2 (a1\<lparr>aux_HeartbeatStatuses := es\<rparr>)"
    unfolding aux_members_append Some using k rows by simp
  have without: "aux_members (ms1 @ (key, JArray []) # ms2)
        \<lparr>aux_HeartbeatStatuses = [], Alias = vd\<rparr> =
      aux_members ms2 (a1\<lparr>aux_HeartbeatStatuses := []\<rparr>)"
    unfolding aux_members_append Some using k no_rows by simp
  show ?thesis
  proof (cases "aux_members ms2 (a1\<lparr>aux_HeartbeatStatuses := es\<rparr>)")
    case None
    then have "aux_members ms2 (a1\<lparr>aux_HeartbeatStatuses := []\<rparr>) = None"
      using aux_members_fails_alike [of ms2 "a1\<lparr>aux_HeartbeatStatuses := es\<rparr>"
          "a1\<lparr>aux_HeartbeatStatuses := []\<rparr>"]
      by simp
    then show ?thesis
      using None by (simp add: UnmarshalJSON_def unmarshal_aux_def with_pairs without)
  next
    case (Some a')
    have "aux_HeartbeatStatuses a' = es"
      using aux_members_keeps_rows [OF later Some] by simp
    then show ?thesis
      using Some by (simp add: UnmarshalJSON_def unmarshal_aux_def with_pairs)
  qed
qed

lemma convert_entries_stores:
  "unmarshal_HeartbeatStatus (remarshal v) = Some hs \<Longrightarrow>
     convert_entries (es1 @ [JString key, v] # es2) m =
       convert_entries es2 ((convert_entries es1 m)(key \<mapsto> hs))"
  by (simp add: convert_entries_append)

lemma convert_entries_origin:
  "convert_entries es m key = Some hs \<Longrightarrow>
     m key = Some hs
     \<or> (\<exists>v. [JString key, v] \<in> set es \<and> unmarshal_HeartbeatStatus (remarshal v) = Some hs)"
proof (induction es arbitrary: m)
  case Nil
  then show ?case by simp
next
  case (Cons entry es)
  show ?case
  proof (cases "length entry = 2 \<and> (\<exists>k. entry ! 0 = JString k) \<and> unmarshal_HeartbeatStatus (remarshal (entry ! 1)) \<noteq> None")
    case True
    then obtain k v hs' where e: "entry = [JString k, v]"
      and hs': "unmarshal_HeartbeatStatus (remarshal v) = Some hs'"
      by (metis well_formed_pairE nth_Cons_0 nth_Cons_Suc One_nat_def not_Some_eq)
    have "convert_entries es (m(k \<mapsto> hs')) key = Some hs"
      using Cons.prems unfolding e convert_entries_well_formed [OF hs'] .
    then have "(m(k \<mapsto> hs')) key = Some hs
       \<or> (\<exists>v. [JString key, v] \<in> set es \<and> unmarshal_HeartbeatStatus (remarshal v) = Some hs)"
      by (rule Cons.IH)
    then show ?thesis
      using e hs' by (cases "k = key") auto
  next
    case False
    then have "convert_entries (entry # es) m = convert_entries es m"
      using convert_entries_malformed [of entry es m] by blast
    then show ?thesis using Cons.IH [of m] Cons.prems by auto
  qed
qed


text \<open>
  Claim C4. The loop over the pairs of \<^verbatim>\<open>heartbeat_statuses\<close> starts from the given
  map. A pair that has not exactly two elements, or whose first element is no string, or
  whose second element does not decode into a \<^verbatim>\<open>HeartbeatStatus\<close>, leaves the map as if
  the pair were not there. A pair of a string and a value that decodes stores the decoded
  status under that string, at its place in the sequence, so that it is the entry when no
  pair follows. The keys of the map are exactly the strings of such pairs, and every status
  in the map is the decoded value of such a pair. \<^verbatim>\<open>UnmarshalJSON\<close> returns no error
  whatever the pairs are: on an object with this member alone it returns the map of the
  loop, and among other members it returns that map, or the error it returns for the same
  object with no pairs; it does not panic.
\<close>

theorem partial_decode_of_pairs:
  "convert_entries [] m = m
   \<and> (length entry \<noteq> 2 \<or> (\<forall>key. entry ! 0 \<noteq> JString key)
        \<or> unmarshal_HeartbeatStatus (remarshal (entry ! 1)) = None
      \<longrightarrow> convert_entries (es1 @ entry # es2) m = convert_entries (es1 @ es2) m)
   \<and> (unmarshal_HeartbeatStatus (remarshal v) = Some hs
      \<longrightarrow> convert_entries (es1 @ [JString key, v] # es2) m =
            convert_entries es2 ((convert_entries es1 m)(key \<mapsto> hs))
          \<and> convert_entries (es1 @ [[JString key, v]]) m key = Some hs)
   \<and> (unmarshal_HeartbeatStatus (remarshal v) \<noteq> None \<and> [JString key, v] \<in> set es
      \<longrightarrow> key \<in> dom (convert_entries es m))
   \<and> dom (convert_entries es Map.empty) =
       {key. \<exists>v. [JString key, v] \<in> set es \<and> unmarshal_HeartbeatStatus (remarshal v) \<noteq> None}
   \<and> (convert_entries es Map.empty key' = Some hs'
      \<longrightarrow> (\<exists>v'. [JString key', v'] \<in> set es \<and> unmarshal_HeartbeatStatus (remarshal v') = Some hs'))
   \<and> UnmarshalJSON vd (JObject [(''heartbeat_statuses'', JArray (map JArray es))]) =
       Ok (vd\<lparr>HeartbeatStatuses := convert_entries es Map.empty\<rparr>)
   \<and> (key_matches ''heartbeat_statuses'' name
        \<and> (\<forall>(name', v') \<in> set ms2. \<not> key_matches ''heartbeat_statuses'' name')
      \<longrightarrow> (case UnmarshalJSON vd (JObject (ms1 @ (name, JArray (map JArray es)) # ms2)) of
             Ok vd' \<Rightarrow> HeartbeatStatuses vd' = convert_entries es Map.empty
           | Err err \<Rightarrow> UnmarshalJSON vd (JObject (ms1 @ (name, JArray []) # ms2)) = Err err
           | Panic p \<Rightarrow> False))"
proof -
  have start: "convert_entries [] m = m"
    by simp
  have skipped: "length entry \<noteq> 2 \<or> (\<forall>key. entry ! 0 \<noteq> JString key)
        \<or> unmarshal_HeartbeatStatus (remarshal (entry ! 1)) = None
      \<longrightarrow> convert_entries (es1 @ entry # es2) m = convert_entries (es1 @ es2) m"
    using convert_entries_malformed [of entry es2 "convert_entries es1 m"]
    by (simp add: convert_entries_append)
  have stored: "unmarshal_HeartbeatStatus (remarshal v) = Some hs
      \<longrightarrow> convert_entries (es1 @ [JString key, v] # es2) m =
            convert_entries es2 ((convert_entries es1 m)(key \<mapsto> hs))
          \<and> convert_entries (es1 @ [[JString key, v]]) m key = Some hs"
    using convert_entries_stores [where v = v and hs = hs and ?es1.0 = es1 and key = key
        and ?es2.0 = es2 and m = m]
      convert_entries_stores [where v = v and hs = hs and ?es1.0 = es1 and key = key
        and ?es2.0 = "[]" and m = m]
    by simp
  have included: "unmarshal_HeartbeatStatus (remarshal v) \<noteq> None \<and> [JString key, v] \<in> set es
      \<longrightarrow> key \<in> dom (convert_entries es m)"
    unfolding dom_convert_entries by blast
  have keys: "dom (convert_entries es Map.empty) =
       {key. \<exists>v. [JString key, v] \<in> set es \<and> unmarshal_HeartbeatStatus (remarshal v) \<noteq> None}"
    unfolding dom_convert_entries by simp
  have origin: "convert_entries es Map.empty key' = Some hs'
      \<longrightarrow> (\<exists>v'. [JString key', v'] \<in> set es \<and> unmarshal_HeartbeatStatus (remarshal v') = Some hs')"
    using convert_entries_origin [of es Map.empty key' hs'] by simp
  have alone: "UnmarshalJSON vd (JObject [(''heartbeat_statuses'', JArray (map JArray es))]) =
       Ok (vd\<lparr>HeartbeatStatuses := convert_entries es Map.empty\<rparr>)"
    by (rule UnmarshalJSON_pairs)
  have among: "key_matches ''heartbeat_statuses'' name
        \<and> (\<forall>(name', v') \<in> set ms2. \<not> key_matches ''heartbeat_statuses'' name')
      \<longrightarrow> (case UnmarshalJSON vd (JObject (ms1 @ (name, JArray (map JArray es)) # ms2)) of
             Ok vd' \<Rightarrow> HeartbeatStatuses vd' = convert_entries es Map.empty
           | Err err \<Rightarrow> UnmarshalJSON vd (JObject (ms1 @ (name, JArray []) # ms2)) = Err err
           | Panic p \<Rightarrow> False)"
    using UnmarshalJSON_members [where key = name and ?ms2.0 = ms2 and vd = vd and ?ms1.0 = ms1
        and es = es]
    by simp
  show ?thesis
    by (intro conjI start skipped stored included keys origin alone among)
qed


theorem partial_decode_of_pairs_witness:
  "convert_entries
      ([[JString ''0xabc'', sample_status_json 41 JNull]] @ [JString ''0xdef''] #
         [[JNumber 7, JObject []], [JString ''0xbad'', JString ''down'']]) Map.empty =
     convert_entries
      ([[JString ''0xabc'', sample_status_json 41 JNull]] @
         [[JNumber 7, JObject []], [JString ''0xbad'', JString ''down'']]) Map.empty
   \<and> convert_entries ([[JString ''0xdef'']] @ [[JString ''0xabc'', sample_status_json 41 JNull]])
        Map.empty ''0xabc'' = Some \<lparr>SinceLastSuccess = 41, LastAckDuration = None\<rparr>
   \<and> ''0xabc'' \<in> dom (convert_entries
        [[JString ''0xdef''], [JString ''0xabc'', sample_status_json 41 JNull]] Map.empty)
   \<and> dom (convert_entries
        [[JString ''0xdef''], [JString ''0xabc'', sample_status_json 41 JNull]] Map.empty) = {''0xabc''}
   \<and> UnmarshalJSON zero_ValidatorData
        (JObject [(''heartbeat_statuses'',
           JArray (map JArray [[JString ''0xdef''], [JString ''0xabc'', sample_status_json 41 JNull]]))]) =
       Ok (zero_ValidatorData\<lparr>HeartbeatStatuses :=
             convert_entries [[JString ''0xdef''], [JString ''0xabc'', sample_status_json 41 JNull]] Map.empty\<rparr>)
   \<and> (case UnmarshalJSON zero_ValidatorData
              (JObject ([] @ (''heartbeat_statuses'',
                 JArray (map JArray [[JString ''0xdef''], [JString ''0xabc'', sample_status_json 41 JNull]])) #
                 [(''home_validator'', JString ''0xabc'')])) of
         Ok vd' \<Rightarrow>
           HeartbeatStatuses vd' =
             convert_entries [[JString ''0xdef''], [JString ''0xabc'', sample_status_json 41 JNull]] Map.empty
       | Err err \<Rightarrow>
           UnmarshalJSON zero_ValidatorData
             (JObject ([] @ (''heartbeat_statuses'', JArray []) #
                [(''home_validator'', JString ''0xabc'')])) = Err err
       | Panic p \<Rightarrow> False)"
proof -
  have decoded: "unmarshal_HeartbeatStatus (remarshal (sample_status_json 41 JNull)) =
      Some \<lparr>SinceLastSuccess = 41, LastAckDuration = None\<rparr>"
    by code_simp
  have keys: "{key. \<exists>v. [JString key, v] \<in> set [[JString ''0xdef''], [JString ''0xabc'', sample_status_json 41 JNull]]
                 \<and> unmarshal_HeartbeatStatus (remarshal v) \<noteq> None} = {''0xabc''}"
    using decoded by auto
  have others: "\<forall>(name', v') \<in> set [(''home_validator'', JString ''0xabc'')].
      \<not> key_matches ''heartbeat_statuses'' name'"
    by code_simp
  note first = partial_decode_of_pairs [where m = Map.empty and entry = "[JString ''0xdef'']"
        and ?es1.0 = "[[JString ''0xabc'', sample_status_json 41 JNull]]"
        and ?es2.0 = "[[JNumber 7, JObject []], [JString ''0xbad'', JString ''down'']]"
        and v = "sample_status_json 41 JNull"
        and hs = "\<lparr>SinceLastSuccess = 41, LastAckDuration = None\<rparr>" and key = "''0xabc''"
        and es = "[[JString ''0xdef''], [JString ''0xabc'', sample_status_json 41 JNull]]"
        and vd = zero_ValidatorData and name = "''heartbeat_statuses''" and ?ms1.0 = "[]"
        and ?ms2.0 = "[(''home_validator'', JString ''0xabc'')]"]
  note second = partial_decode_of_pairs [where m = Map.empty
        and ?es1.0 = "[[JString ''0xdef'']]" and v = "sample_status_json 41 JNull"
        and hs = "\<lparr>SinceLastSuccess = 41, LastAckDuration = None\<rparr>" and key = "''0xabc''"]
  have skipped: "convert_entries
      ([[JString ''0xabc'', sample_status_json 41 JNull]] @ [JString ''0xdef''] #
         [[JNumber 7, JObject []], [JString ''0xbad'', JString ''down'']]) Map.empty =
     convert_entries
      ([[JString ''0xabc'', sample_status_json 41 JNull]] @
         [[JNumber 7, JObject []], [JString ''0xbad'', JString ''down'']]) Map.empty"
    using first by simp
  have stored: "convert_entries ([[JString ''0xdef'']] @ [[JString ''0xabc'', sample_status_json 41 JNull]])
        Map.empty ''0xabc'' = Some \<lparr>SinceLastSuccess = 41, LastAckDuration = None\<rparr>"
    using second decoded by blast
  have included: "''0xabc'' \<in> dom (convert_entries
        [[JString ''0xdef''], [JString ''0xabc'', sample_status_json 41 JNull]] Map.empty)"
    using first decoded by simp
  have dom: "dom (convert_entries
        [[JString ''0xdef''], [JString ''0xabc'', sample_status_json 41 JNull]] Map.empty) = {''0xabc''}"
    using first unfolding keys by blast
  have alone: "UnmarshalJSON zero_ValidatorData
        (JObject [(''heartbeat_statuses'',
           JArray (map JArray [[JString ''0xdef''], [JString ''0xabc'', sample_status_json 41 JNull]]))]) =
       Ok (zero_ValidatorData\<lparr>HeartbeatStatuses :=
             convert_entries [[JString ''0xdef''], [JString ''0xabc'', sample_status_json 41 JNull]] Map.empty\<rparr>)"
    using first by blast
  have among: "(case UnmarshalJSON zero_ValidatorData
              (JObject ([] @ (''heartbeat_statuses'',
                 JArray (map JArray [[JString ''0xdef''], [JString ''0xabc'', sample_status_json 41 JNull]])) #
                 [(''home_validator'', JString ''0xabc'')])) of
         Ok vd' \<Rightarrow>
           HeartbeatStatuses vd' =
             convert_entries [[JString ''0xdef''], [JString ''0xabc'', sample_status_json 41 JNull]] Map.empty
       | Err err \<Rightarrow>
           UnmarshalJSON zero_ValidatorData
             (JObject ([] @ (''heartbeat_statuses'', JArray []) #
                [(''home_validator'', JString ''0xabc'')])) = Err err
       | Panic p \<Rightarrow> False)"
    using first others key_matches_refl [of "''heartbeat_statuses''"] by blast
  show ?thesis
    by (intro conjI skipped stored included dom alone among)
qed

text \<open>
  Claim C10. When several pairs carry the same address, the map holds one status for it:
  that of the last pair with this address whose value decodes.
\<close>

theorem last_pair_wins:
  "unmarshal_HeartbeatStatus (remarshal v) = Some hs \<Longrightarrow>
   (\<forall>v'. [JString key, v'] \<in> set es2 \<longrightarrow> unmarshal_HeartbeatStatus (remarshal v') = None) \<Longrightarrow>
     convert_entries (es1 @ [JString key, v] # es2) m key = Some hs
     \<and> (\<exists>!hs'. convert_entries (es1 @ [JString key, v] # es2) m key = Some hs')"
proof -
  assume hs: "unmarshal_HeartbeatStatus (remarshal v) = Some hs"
    and later: "\<forall>v'. [JString key, v'] \<in> set es2 \<longrightarrow> unmarshal_HeartbeatStatus (remarshal v') = None"
  have "convert_entries (es1 @ [JString key, v] # es2) m key =
          convert_entries es2 ((convert_entries es1 m)(key \<mapsto> hs)) key"
    using hs by (simp add: convert_entries_append)
  also have "\<dots> = Some hs"
    using convert_entries_no_later_pair [OF later] by simp
  finally show ?thesis by simp
qed

theorem last_pair_wins_witness:
  "convert_entries
      ([[JString ''0xabc'', sample_status_json 41 (JNumber 1)]] @
         [JString ''0xabc'', sample_status_json 10 JNull] #
         [[JString ''0xabc'', JString ''down''], [JString ''0xdef'', sample_status_json 41 JNull]])
      Map.empty ''0xabc'' =
     Some \<lparr>SinceLastSuccess = 10, LastAckDuration = None\<rparr>
   \<and> unmarshal_HeartbeatStatus (remarshal (sample_status_json 41 (JNumber 1))) =
       Some \<lparr>SinceLastSuccess = 41, LastAckDuration = Some 1\<rparr>"
proof -
  have decoded: "unmarshal_HeartbeatStatus (remarshal (sample_status_json 10 JNull)) =
      Some \<lparr>SinceLastSuccess = 10, LastAckDuration = None\<rparr>"
    by code_simp
  have earlier: "unmarshal_HeartbeatStatus (remarshal (sample_status_json 41 (JNumber 1))) =
       Some \<lparr>SinceLastSuccess = 41, LastAckDuration = Some 1\<rparr>"
    by code_simp
  have bad: "unmarshal_HeartbeatStatus (remarshal (JString ''down'')) = None"
    by (simp add: unmarshal_HeartbeatStatus_def)
  have later: "\<forall>v'. [JString ''0xabc'', v'] \<in> set [[JString ''0xabc'', JString ''down''],
          [JString ''0xdef'', sample_status_json 41 JNull]] \<longrightarrow> unmarshal_HeartbeatStatus (remarshal v') = None"
    using bad by simp
  show ?thesis
    using last_pair_wins [OF decoded later, of "[[JString ''0xabc'', sample_status_json 41 (JNumber 1)]]" Map.empty]
      earlier by simp
qed


section \<open>Decoding a status\<close>

lemma names_differ:
  "key_matches ''last_ack_duration'' key \<Longrightarrow> \<not> key_matches ''since_last_success'' key"
  by (simp add: key_matches_def)

lemma members_append:
  "HeartbeatStatus_members (ms1 @ ms2) hs =
     (case HeartbeatStatus_members ms1 hs of None \<Rightarrow> None | Some hs' \<Rightarrow> HeartbeatStatus_members ms2 hs')"
  by (induction ms1 arbitrary: hs) (auto split: json.splits)

lemma members_keep_ack:
  "(\<forall>(key, v) \<in> set ms. \<not> key_matches ''last_ack_duration'' key) \<Longrightarrow>
   HeartbeatStatus_members ms hs = Some hs' \<Longrightarrow> LastAckDuration hs' = LastAckDuration hs"
proof (induction ms arbitrary: hs)
  case Nil
  then show ?case by simp
next
  case (Cons m ms)
  obtain key v where m: "m = (key, v)" by (cases m)
  show ?case using Cons.IH Cons.prems unfolding m
    by (auto split: if_splits json.splits)
qed

lemma members_last_ack:
  assumes "key_matches ''last_ack_duration'' key"
    and "\<forall>(key', v') \<in> set ms2. \<not> key_matches ''last_ack_duration'' key'"
    and "HeartbeatStatus_members (ms1 @ (key, v) # ms2) hs = Some hs'"
  shows "(v = JNull \<longrightarrow> LastAckDuration hs' = None)
       \<and> (\<forall>x. v = JNumber x \<longrightarrow> LastAckDuration hs' = Some x)
       \<and> (v = JNull \<or> (\<exists>x. v = JNumber x))"
proof -
  obtain hs1 where hs1: "HeartbeatStatus_members ms1 hs = Some hs1"
    and rest: "HeartbeatStatus_members ((key, v) # ms2) hs1 = Some hs'"
    using assms(3) by (auto simp: members_append split: option.splits)
  have no: "\<not> key_matches ''since_last_success'' key"
    using assms(1) by (rule names_differ)
  show ?thesis
    using rest no assms(1) members_keep_ack [OF assms(2)]
    by (cases v) (auto split: if_splits)
qed

text \<open>
  Claim C6. When no member of the object goes to \<^verbatim>\<open>last_ack_duration\<close>, or the last one
  that does is \<^verbatim>\<open>null\<close>, the decoded \<^verbatim>\<open>LastAckDuration\<close> is nil; when the last one is a
  number, it points to exactly that number; and a decoded zero differs from a decoded
  \<^verbatim>\<open>null\<close> and from a missing member.
\<close>

theorem last_ack_duration_decoded:
  "((\<forall>(key, v) \<in> set ms. \<not> key_matches ''last_ack_duration'' key)
      \<and> unmarshal_HeartbeatStatus (JObject ms) = Some hs \<longrightarrow> LastAckDuration hs = None)
   \<and> (key_matches ''last_ack_duration'' key
      \<and> (\<forall>(key', v') \<in> set ms2. \<not> key_matches ''last_ack_duration'' key')
      \<and> unmarshal_HeartbeatStatus (JObject (ms1 @ (key, JNull) # ms2)) = Some hs
      \<longrightarrow> LastAckDuration hs = None)
   \<and> (key_matches ''last_ack_duration'' key
      \<and> (\<forall>(key', v') \<in> set ms2. \<not> key_matches ''last_ack_duration'' key')
      \<and> unmarshal_HeartbeatStatus (JObject (ms1 @ (key, JNumber x) # ms2)) = Some hs
      \<longrightarrow> LastAckDuration hs = Some x)
   \<and> unmarshal_HeartbeatStatus (JObject [(''since_last_success'', JNumber s)]) =
       Some \<lparr>SinceLastSuccess = s, LastAckDuration = None\<rparr>
   \<and> unmarshal_HeartbeatStatus (JObject [(''last_ack_duration'', JNull), (''since_last_success'', JNumber s)]) =
       Some \<lparr>SinceLastSuccess = s, LastAckDuration = None\<rparr>
   \<and> unmarshal_HeartbeatStatus (JObject [(''last_ack_duration'', JNumber x), (''since_last_success'', JNumber s)]) =
       Some \<lparr>SinceLastSuccess = s, LastAckDuration = Some x\<rparr>
   \<and> unmarshal_HeartbeatStatus (JObject [(''last_ack_duration'', JNumber 0), (''since_last_success'', JNumber s)]) \<noteq>
       unmarshal_HeartbeatStatus (JObject [(''last_ack_duration'', JNull), (''since_last_success'', JNumber s)])
   \<and> unmarshal_HeartbeatStatus (JObject [(''last_ack_duration'', JNumber 0), (''since_last_success'', JNumber s)]) \<noteq>
       unmarshal_HeartbeatStatus (JObject [(''since_last_success'', JNumber s)])"
proof -
  have missing: "LastAckDuration hs = None"
    if "(\<forall>(key, v) \<in> set ms. \<not> key_matches ''last_ack_duration'' key)
        \<and> unmarshal_HeartbeatStatus (JObject ms) = Some hs"
    using that members_keep_ack [of ms zero_HeartbeatStatus hs]
    by (simp add: unmarshal_HeartbeatStatus_def zero_HeartbeatStatus_def)
  have null: "LastAckDuration hs = None"
    if "key_matches ''last_ack_duration'' key
      \<and> (\<forall>(key', v') \<in> set ms2. \<not> key_matches ''last_ack_duration'' key')
      \<and> unmarshal_HeartbeatStatus (JObject (ms1 @ (key, JNull) # ms2)) = Some hs"
    using that members_last_ack [of key ms2 ms1 JNull zero_HeartbeatStatus hs]
    by (simp add: unmarshal_HeartbeatStatus_def)
  have number: "LastAckDuration hs = Some x"
    if "key_matches ''last_ack_duration'' key
      \<and> (\<forall>(key', v') \<in> set ms2. \<not> key_matches ''last_ack_duration'' key')
      \<and> unmarshal_HeartbeatStatus (JObject (ms1 @ (key, JNumber x) # ms2)) = Some hs"
    using that members_last_ack [of key ms2 ms1 "JNumber x" zero_HeartbeatStatus hs]
    by (simp add: unmarshal_HeartbeatStatus_def)
  have other: "\<not> key_matches ''since_last_success'' ''last_ack_duration''"
    using names_differ [OF key_matches_refl] .
  have decoded:
    "unmarshal_HeartbeatStatus (JObject [(''since_last_success'', JNumber s)]) =
       Some \<lparr>SinceLastSuccess = s, LastAckDuration = None\<rparr>"
    "unmarshal_HeartbeatStatus (JObject [(''last_ack_duration'', JNull), (''since_last_success'', JNumber s)]) =
       Some \<lparr>SinceLastSuccess = s, LastAckDuration = None\<rparr>"
    "\<And>y. unmarshal_HeartbeatStatus (JObject [(''last_ack_duration'', JNumber y), (''since_last_success'', JNumber s)]) =
       Some \<lparr>SinceLastSuccess = s, LastAckDuration = Some y\<rparr>"
    by (simp_all add: unmarshal_HeartbeatStatus_def zero_HeartbeatStatus_def key_matches_refl other)
  show ?thesis
    using missing null number unfolding decoded by simp
qed

theorem last_ack_duration_decoded_witness:
  "unmarshal_HeartbeatStatus (JObject [(''since_last_success'', JNumber 10)]) =
     Some \<lparr>SinceLastSuccess = 10, LastAckDuration = None\<rparr>
   \<and> LastAckDuration \<lparr>SinceLastSuccess = 10, LastAckDuration = None\<rparr> = None
   \<and> key_matches ''last_ack_duration'' ''last_ack_duration''
   \<and> unmarshal_HeartbeatStatus
        (JObject ([(''LAST_ACK_DURATION'', JNumber 5)] @ (''last_ack_duration'', JNull) #
                  [(''since_last_success'', JNumber 10)])) =
       Some \<lparr>SinceLastSuccess = 10, LastAckDuration = None\<rparr>
   \<and> unmarshal_HeartbeatStatus
        (JObject ([(''LAST_ACK_DURATION'', JNull)] @ (''last_ack_duration'', JNumber 0) #
                  [(''since_last_success'', JNumber 10)])) =
       Some \<lparr>SinceLastSuccess = 10, LastAckDuration = Some 0\<rparr>
   \<and> LastAckDuration \<lparr>SinceLastSuccess = 10, LastAckDuration = Some 0\<rparr> = Some 0"
proof -
  have missing: "\<forall>(key, v) \<in> set [(''since_last_success'', JNumber 10)]. \<not> key_matches ''last_ack_duration'' key"
    by code_simp
  have a: "unmarshal_HeartbeatStatus (JObject [(''since_last_success'', JNumber 10)]) =
     Some \<lparr>SinceLastSuccess = 10, LastAckDuration = None\<rparr>"
    by code_simp
  have b: "unmarshal_HeartbeatStatus
        (JObject ([(''LAST_ACK_DURATION'', JNumber 5)] @ (''last_ack_duration'', JNull) #
                  [(''since_last_success'', JNumber 10)])) =
       Some \<lparr>SinceLastSuccess = 10, LastAckDuration = None\<rparr>"
    by code_simp
  have c: "unmarshal_HeartbeatStatus
        (JObject ([(''LAST_ACK_DURATION'', JNull)] @ (''last_ack_duration'', JNumber 0) #
                  [(''since_last_success'', JNumber 10)])) =
       Some \<lparr>SinceLastSuccess = 10, LastAckDuration = Some 0\<rparr>"
    by code_simp
  show ?thesis
    using last_ack_duration_decoded [of "[(''since_last_success'', JNumber 10)]"
        "\<lparr>SinceLastSuccess = 10, LastAckDuration = None\<rparr>" "''last_ack_duration''"
        "[(''since_last_success'', JNumber 10)]" "[(''LAST_ACK_DURATION'', JNumber 5)]" 0 10]
      last_ack_duration_decoded [of "[(''since_last_success'', JNumber 10)]"
        "\<lparr>SinceLastSuccess = 10, LastAckDuration = Some 0\<rparr>" "''last_ack_duration''"
        "[(''since_last_success'', JNumber 10)]" "[(''LAST_ACK_DURATION'', JNull)]" 0 10]
      missing a b c key_matches_refl [of "''last_ack_duration''"]
    by simp
qed

section \<open>One iteration of the loop\<close>

lemma read_entries_clean:
  "read_entries \<lparr>upcoming = xs, broken = False\<rparr> lastRawEntry printed =
     Some (if xs = [] then lastRawEntry else Some (last xs), printed)"
proof (induction xs arbitrary: lastRawEntry)
  case Nil
  show ?case
    by (subst read_entries.simps) (simp add: Decode_def)
next
  case (Cons x xs)
  show ?case
    by (subst read_entries.simps) (simp add: Decode_def Cons.IH)
qed

lemma read_entries_returns:
  assumes "read_entries decoder lastRawEntry printed = Some r"
  shows "\<not> broken decoder"
proof (rule read_entries.raw_induct
    [where P = "\<lambda>decoder lastRawEntry printed r. \<not> broken decoder", OF _ assms])
  fix f decoder lastRawEntry printed r
  assume IH: "\<And>decoder lastRawEntry printed r. f decoder lastRawEntry printed = Some r \<Longrightarrow> \<not> broken decoder"
    and step: "(case Decode decoder of
        (Inr rawEntry, decoder') \<Rightarrow> f decoder' (Some rawEntry) printed
      | (Inl EOF, decoder') \<Rightarrow> Some (lastRawEntry, printed)
      | (Inl SyntaxError, decoder') \<Rightarrow>
          f decoder' lastRawEntry (printed @ [Log ErrorDecodingJSONLine])) = Some r"
  show "\<not> broken decoder"
  proof (cases "upcoming decoder")
    case Nil
    then show ?thesis using step IH [of decoder lastRawEntry "printed @ [Log ErrorDecodingJSONLine]" r]
      by (auto simp: Decode_def split: if_splits)
  next
    case (Cons x xs)
    then have "f (decoder\<lparr>upcoming := xs\<rparr>) (Some x) printed = Some r"
      using step by (simp add: Decode_def)
    then show ?thesis using IH by fastforce
  qed
qed

lemma read_entries_broken:
  "broken decoder \<Longrightarrow> read_entries decoder lastRawEntry printed = None"
  using read_entries_returns by (cases "read_entries decoder lastRawEntry printed") auto

lemma not_pair_shape:
  "(\<forall>a b. raw \<noteq> JArray [a, b]) \<Longrightarrow>
     unmarshal_logArray raw = None \<or> (\<exists>xs. unmarshal_logArray raw = Some xs \<and> length xs \<noteq> 2)"
proof (cases raw)
  case (JArray xs)
  assume "\<forall>a b. raw \<noteq> JArray [a, b]"
  then have "length xs \<noteq> 2" using JArray
    by (cases xs; cases "tl xs") auto
  then show ?thesis using JArray by (simp add: unmarshal_logArray_def)
qed (simp_all add: unmarshal_logArray_def)


lemma pair_shape_cases:
  "(\<forall>a b. raw \<noteq> JArray [a, b]) \<Longrightarrow>
     (case unmarshal_logArray raw of None \<Rightarrow> True | Some logArray \<Rightarrow> length logArray \<noteq> 2)"
  using not_pair_shape [of raw] by (auto split: option.splits)

lemma process_last_entry_not_pair:
  "(\<forall>a b. raw \<noteq> JArray [a, b]) \<Longrightarrow>
     process_last_entry fmt_float ptr_text config raw =
       ([Log (RawJSONContent raw), Log CouldNotUnmarshalAsArray], RunsOn)"
  using pair_shape_cases [of raw]
  by (auto simp: process_last_entry_def split: option.splits)

lemma process_last_entry_no_timestamp:
  "(\<forall>s. a \<noteq> JString s) \<Longrightarrow>
     process_last_entry fmt_float ptr_text config (JArray [a, b]) =
       ([Log (RawJSONContent (JArray [a, b])), Log (ExpectedTimestamp a)], Continue)"
  by (cases a) (simp_all add: process_last_entry_def unmarshal_logArray_def)

lemma poll_cycle_clean:
  "poll_cycle fmt_float ptr_text config (Inr \<lparr>upcoming = earlier @ [lastEntry], broken = False\<rparr>) =
     Some (case process_last_entry fmt_float ptr_text config lastEntry of
             (trace, RunsOn) \<Rightarrow>
               (trace @ [FileClose, Sleep (wrap64 (CheckInterval config * Second))], RunsOn)
           | (trace, how) \<Rightarrow> (trace, how))"
  by (simp add: poll_cycle_def read_entries_clean split: prod.splits flow.splits)

lemma poll_cycle_empty:
  "poll_cycle fmt_float ptr_text config (Inr \<lparr>upcoming = [], broken = False\<rparr>) =
     Some ([FileClose, Sleep (wrap64 (CheckInterval config * Second))], RunsOn)"
  by (simp add: poll_cycle_def read_entries_clean)

lemma alerts_simps [simp]:
  "alerts [] = []"
  "alerts (Log l # evs) = alerts evs"
  "alerts (FileClose # evs) = alerts evs"
  "alerts (Sleep n # evs) = alerts evs"
  "alerts (SlackAlert c m # evs) = SlackAlert c m # alerts evs"
  "alerts (PagerDutyAlert k m # evs) = PagerDutyAlert k m # alerts evs"
  by (simp_all add: alerts_def)

lemma sample_alerting_line:
  "process_last_entry sample_fmt ''0xc000012120'' sample_config (sample_line (sample_status_json 41 JNull)) =
     ([Log (RawJSONContent (sample_line (sample_status_json 41 JNull))),
       Log (TimestampLine ''2024-01-02T00:00:00''),
       SlackAlert ''#alerts''
         (''Alert for HyperLiq validator 0xabc:'' @ [CHR 0x0A] @
          ''since_last_success = 41, last_ack_duration = <nil>''),
       PagerDutyAlert ''routing''
         (''Alert for HyperLiq validator 0xabc:'' @ [CHR 0x0A] @
          ''since_last_success = 41, last_ack_duration = <nil>'')], RunsOn)"
  by code_simp

lemma sample_sleep: "wrap64 (CheckInterval sample_config * Second) = 60000000000"
  by (simp add: wrap64_def Second_def sample_config_def)

text \<open>
  Claim C5. When the last entry read is not an array of two elements, or is one whose first
  element is no string, no \<^verbatim>\<open>LogArrayEntry\<close> is built and \<^verbatim>\<open>processLogEntry\<close> is not
  called: the iteration prints the raw entry and an error line and sends no alert.
\<close>

theorem outer_decode_failure_is_logged:
  "((\<forall>a b. raw \<noteq> JArray [a, b]) \<longrightarrow>
      process_last_entry fmt_float ptr_text config raw =
        ([Log (RawJSONContent raw), Log CouldNotUnmarshalAsArray], RunsOn)
      \<and> poll_cycle fmt_float ptr_text config (Inr \<lparr>upcoming = earlier @ [raw], broken = False\<rparr>) =
          Some ([Log (RawJSONContent raw), Log CouldNotUnmarshalAsArray,
                 FileClose, Sleep (wrap64 (CheckInterval config * Second))], RunsOn))
   \<and> ((\<forall>s. a \<noteq> JString s) \<longrightarrow>
      process_last_entry fmt_float ptr_text config (JArray [a, b]) =
        ([Log (RawJSONContent (JArray [a, b])), Log (ExpectedTimestamp a)], Continue)
      \<and> poll_cycle fmt_float ptr_text config (Inr \<lparr>upcoming = earlier @ [JArray [a, b]], broken = False\<rparr>) =
          Some ([Log (RawJSONContent (JArray [a, b])), Log (ExpectedTimestamp a)], Continue))
   \<and> alerts [Log (RawJSONContent raw), Log CouldNotUnmarshalAsArray,
              FileClose, Sleep (wrap64 (CheckInterval config * Second))] = []
   \<and> alerts [Log (RawJSONContent (JArray [a, b])), Log (ExpectedTimestamp a)] = []"
  by (simp add: poll_cycle_clean process_last_entry_not_pair process_last_entry_no_timestamp)

theorem outer_decode_failure_is_logged_witness:
  "process_last_entry sample_fmt ''0xc000012120'' sample_config (JObject []) =
     ([Log (RawJSONContent (JObject [])), Log CouldNotUnmarshalAsArray], RunsOn)
   \<and> poll_cycle sample_fmt ''0xc000012120'' sample_config
        (Inr \<lparr>upcoming = [sample_line (sample_status_json 41 JNull)] @ [JObject []], broken = False\<rparr>) =
       Some ([Log (RawJSONContent (JObject [])), Log CouldNotUnmarshalAsArray,
              FileClose, Sleep 60000000000], RunsOn)
   \<and> process_last_entry sample_fmt ''0xc000012120'' sample_config (JArray [JNumber 7, JObject []]) =
       ([Log (RawJSONContent (JArray [JNumber 7, JObject []])), Log (ExpectedTimestamp (JNumber 7))],
        Continue)"
  using outer_decode_failure_is_logged [of "JObject []" sample_fmt "''0xc000012120''" sample_config
      "[sample_line (sample_status_json 41 JNull)]" "JNumber 7" "JObject []"]
  by (simp add: sample_sleep)

text \<open>
  Claim C2 as stated: a trailing value that is valid JSON but no array does not displace the
  last array-shaped entry. It does: a file with one entry that alerts is evaluated and
  alerts, and the same file followed by \<^verbatim>\<open>{}\<close> gives an error line and no alert.
\<close>

theorem trailing_value_displaces_counterexample:
  "poll_cycle sample_fmt ''0xc000012120'' sample_config
       (Inr (sample_file [sample_line (sample_status_json 41 JNull)])) =
     Some ([Log (RawJSONContent (sample_line (sample_status_json 41 JNull))),
            Log (TimestampLine ''2024-01-02T00:00:00''),
            SlackAlert ''#alerts''
              (''Alert for HyperLiq validator 0xabc:'' @ [CHR 0x0A] @
               ''since_last_success = 41, last_ack_duration = <nil>''),
            PagerDutyAlert ''routing''
              (''Alert for HyperLiq validator 0xabc:'' @ [CHR 0x0A] @
               ''since_last_success = 41, last_ack_duration = <nil>''),
            FileClose, Sleep 60000000000], RunsOn)
   \<and> poll_cycle sample_fmt ''0xc000012120'' sample_config
       (Inr (sample_file [sample_line (sample_status_json 41 JNull), JObject []])) =
     Some ([Log (RawJSONContent (JObject [])), Log CouldNotUnmarshalAsArray,
            FileClose, Sleep 60000000000], RunsOn)"
proof -
  have single: "poll_cycle sample_fmt ''0xc000012120'' sample_config
       (Inr (sample_file [sample_line (sample_status_json 41 JNull)])) =
     Some (case process_last_entry sample_fmt ''0xc000012120'' sample_config
                  (sample_line (sample_status_json 41 JNull)) of
             (trace, RunsOn) \<Rightarrow>
               (trace @ [FileClose, Sleep (wrap64 (CheckInterval sample_config * Second))], RunsOn)
           | (trace, how) \<Rightarrow> (trace, how))"
    using poll_cycle_clean [of sample_fmt "''0xc000012120''" sample_config "[]"]
    by (simp add: sample_file_def)
  have trailing: "poll_cycle sample_fmt ''0xc000012120'' sample_config
       (Inr (sample_file [sample_line (sample_status_json 41 JNull), JObject []])) =
     Some (case process_last_entry sample_fmt ''0xc000012120'' sample_config (JObject []) of
             (trace, RunsOn) \<Rightarrow>
               (trace @ [FileClose, Sleep (wrap64 (CheckInterval sample_config * Second))], RunsOn)
           | (trace, how) \<Rightarrow> (trace, how))"
    using poll_cycle_clean [of sample_fmt "''0xc000012120''" sample_config
        "[sample_line (sample_status_json 41 JNull)]" "JObject []"]
    by (simp add: sample_file_def)
  show ?thesis
    unfolding single trailing sample_alerting_line sample_sleep
    by (simp add: process_last_entry_not_pair)
qed

text \<open>
  Claim C2, amended. For a file that holds JSON values only, the loop ends and the iteration
  does with the file what it does with a file holding the last value alone: the entries
  before it have no effect. The last value is evaluated whatever its shape, so when it is
  no array of two elements no alert is sent, whatever the earlier entries are: the iteration
  prints the raw entry and the error line, closes the file and sleeps. For an empty file
  nothing is evaluated.
\<close>

theorem last_value_is_evaluated:
  "poll_cycle fmt_float ptr_text config (Inr \<lparr>upcoming = earlier @ [lastEntry], broken = False\<rparr>) =
     poll_cycle fmt_float ptr_text config (Inr \<lparr>upcoming = [lastEntry], broken = False\<rparr>)
   \<and> poll_cycle fmt_float ptr_text config (Inr \<lparr>upcoming = earlier @ [lastEntry], broken = False\<rparr>) =
       Some (case process_last_entry fmt_float ptr_text config lastEntry of
               (trace, RunsOn) \<Rightarrow>
                 (trace @ [FileClose, Sleep (wrap64 (CheckInterval config * Second))], RunsOn)
             | (trace, how) \<Rightarrow> (trace, how))
   \<and> poll_cycle fmt_float ptr_text config (Inr \<lparr>upcoming = [], broken = False\<rparr>) =
       Some ([FileClose, Sleep (wrap64 (CheckInterval config * Second))], RunsOn)
   \<and> ((\<forall>a b. lastEntry \<noteq> JArray [a, b]) \<longrightarrow>
        (\<exists>trace how.
           poll_cycle fmt_float ptr_text config (Inr \<lparr>upcoming = earlier @ [lastEntry], broken = False\<rparr>) =
             Some (trace, how) \<and> alerts trace = []))
   \<and> ((\<forall>a b. lastEntry \<noteq> JArray [a, b]) \<longrightarrow>
        poll_cycle fmt_float ptr_text config (Inr \<lparr>upcoming = earlier @ [lastEntry], broken = False\<rparr>) =
          Some ([Log (RawJSONContent lastEntry), Log CouldNotUnmarshalAsArray,
                 FileClose, Sleep (wrap64 (CheckInterval config * Second))], RunsOn))"
proof -
  have one: "poll_cycle fmt_float ptr_text config (Inr \<lparr>upcoming = [lastEntry], broken = False\<rparr>) =
       Some (case process_last_entry fmt_float ptr_text config lastEntry of
               (trace, RunsOn) \<Rightarrow>
                 (trace @ [FileClose, Sleep (wrap64 (CheckInterval config * Second))], RunsOn)
             | (trace, how) \<Rightarrow> (trace, how))"
    using poll_cycle_clean [of fmt_float ptr_text config "[]" lastEntry] by simp
  show ?thesis
    unfolding one poll_cycle_clean poll_cycle_empty
    by (simp add: process_last_entry_not_pair)
qed

theorem last_value_is_evaluated_witness:
  "poll_cycle sample_fmt ''0xc000012120'' sample_config
      (Inr \<lparr>upcoming = [sample_line (sample_status_json 41 JNull)] @ [sample_line (sample_status_json 10 (JNumber float64_0_01))],
            broken = False\<rparr>) =
     poll_cycle sample_fmt ''0xc000012120'' sample_config
      (Inr \<lparr>upcoming = [sample_line (sample_status_json 10 (JNumber float64_0_01))], broken = False\<rparr>)
   \<and> (\<exists>trace how.
         poll_cycle sample_fmt ''0xc000012120'' sample_config
           (Inr \<lparr>upcoming = [sample_line (sample_status_json 41 JNull)] @ [JNumber 7], broken = False\<rparr>) =
             Some (trace, how) \<and> alerts trace = [])"
proof -
  have no_pair: "\<forall>a b. JNumber 7 \<noteq> JArray [a, b]"
    by simp
  show ?thesis
    using last_value_is_evaluated [of sample_fmt "''0xc000012120''" sample_config
        "[sample_line (sample_status_json 41 JNull)]"
        "sample_line (sample_status_json 10 (JNumber float64_0_01))"]
      last_value_is_evaluated [of sample_fmt "''0xc000012120''" sample_config
        "[sample_line (sample_status_json 41 JNull)]" "JNumber 7"]
      no_pair
    by blast
qed

section \<open>The locator\<close>

lemma latest_of_Max: "latest_of latestDir dirs = Max (insert latestDir (set dirs))"
proof (induction dirs arbitrary: latestDir)
  case Nil
  then show ?case by simp
next
  case (Cons dir dirs)
  show ?case
  proof (cases "dir > latestDir")
    case True
    have "dir \<le> Max (insert dir (set dirs))"
      by (rule Max_ge) simp_all
    with True have "latestDir \<le> Max (insert dir (set dirs))"
      by (rule order.strict_implies_order [OF less_le_trans])
    then have "max latestDir (Max (insert dir (set dirs))) = Max (insert dir (set dirs))"
      by (simp add: max_def)
    then have "Max (insert latestDir (insert dir (set dirs))) = Max (insert dir (set dirs))"
      by (simp add: Max_insert [of "insert dir (set dirs)" latestDir])
    then show ?thesis using True Cons.IH [of dir] by simp
  next
    case False
    have "latestDir \<le> Max (insert latestDir (set dirs))"
      by (rule Max_ge) simp_all
    moreover have "dir \<le> latestDir"
      using False by (simp add: not_less)
    ultimately have "dir \<le> Max (insert latestDir (set dirs))"
      by (rule order_trans [rotated])
    then have "max dir (Max (insert latestDir (set dirs))) = Max (insert latestDir (set dirs))"
      by (simp add: max_def)
    then have "Max (insert dir (insert latestDir (set dirs))) = Max (insert latestDir (set dirs))"
      by (simp add: Max_insert [of "insert latestDir (set dirs)" dir])
    then have "Max (insert latestDir (insert dir (set dirs))) = Max (insert latestDir (set dirs))"
      by (simp add: insert_commute)
    then show ?thesis using False Cons.IH [of latestDir] by simp
  qed
qed

lemma findLatestDir_Max:
  assumes "ReadDir basePath = Inr entries" and "dirs = map Name (filter IsDir entries)" and "dirs \<noteq> []"
  shows "findLatestDir ReadDir basePath = Inr (basePath @ ''/'' @ Max (set dirs))"
proof -
  have "dirs ! 0 \<in> set dirs" using assms(3) by simp
  then have "insert (dirs ! 0) (set dirs) = set dirs" by auto
  then show ?thesis
    using assms by (simp add: findLatestDir_def Let_def latest_of_Max)
qed

text \<open>
  Claim C8. When the base path has subdirectories, \<^verbatim>\<open>findLatestDir\<close> returns the one
  whose name is greatest in the byte-wise lexicographic order of strings (so \<^verbatim>\<open>9\<close> wins
  over \<^verbatim>\<open>10\<close>); when it has none, it fails with the no-directories error.
\<close>

theorem latest_dir_is_lexicographic_maximum:
  "ReadDir basePath = Inr entries \<Longrightarrow> dirs = map Name (filter IsDir entries) \<Longrightarrow>
     (dirs \<noteq> [] \<longrightarrow>
        findLatestDir ReadDir basePath = Inr (basePath @ ''/'' @ Max (set dirs))
        \<and> Max (set dirs) \<in> set dirs \<and> (\<forall>dir \<in> set dirs. dir \<le> Max (set dirs)))
     \<and> (dirs = [] \<longrightarrow> findLatestDir ReadDir basePath = Inl (NoDirectoriesFound basePath))"
proof -
  assume read: "ReadDir basePath = Inr entries" and dirs: "dirs = map Name (filter IsDir entries)"
  have "findLatestDir ReadDir basePath = Inl (NoDirectoriesFound basePath)" if "dirs = []"
    using that read dirs by (simp add: findLatestDir_def)
  moreover have "Max (set dirs) \<in> set dirs" if "dirs \<noteq> []"
    using that by (simp add: Max_in)
  moreover have "findLatestDir ReadDir basePath = Inr (basePath @ ''/'' @ Max (set dirs))" if "dirs \<noteq> []"
    using read dirs that by (rule findLatestDir_Max)
  ultimately show ?thesis by auto
qed

theorem latest_dir_is_lexicographic_maximum_witness:
  "findLatestDir sample_ReadDir ''/logs'' = Inr ''/logs/2024-01-02''
   \<and> findLatestDir sample_ReadDir ''/numbered'' = Inr ''/numbered/9''
   \<and> findLatestDir sample_ReadDir ''/empty'' = Inl (NoDirectoriesFound ''/empty'')"
proof -
  have a: "sample_ReadDir ''/logs'' =
      Inr [\<lparr>Name = ''2023-12-31'', IsDir = True\<rparr>, \<lparr>Name = ''2024-01-01'', IsDir = True\<rparr>,
           \<lparr>Name = ''2024-01-02'', IsDir = True\<rparr>, \<lparr>Name = ''README'', IsDir = False\<rparr>]"
    by (simp add: sample_ReadDir_def)
  have b: "sample_ReadDir ''/numbered'' = Inr [\<lparr>Name = ''10'', IsDir = True\<rparr>, \<lparr>Name = ''9'', IsDir = True\<rparr>]"
    by (simp add: sample_ReadDir_def)
  have c: "sample_ReadDir ''/empty'' = Inr []"
    by (simp add: sample_ReadDir_def)
  show ?thesis
    using latest_dir_is_lexicographic_maximum [of sample_ReadDir "''/logs''" _
          "[''2023-12-31'', ''2024-01-01'', ''2024-01-02'']", OF a]
      latest_dir_is_lexicographic_maximum [of sample_ReadDir "''/numbered''" _ "[''10'', ''9'']", OF b]
      latest_dir_is_lexicographic_maximum [of sample_ReadDir "''/empty''" _ "[]", OF c]
    by simp
qed

lemma less_file_irrefl: "\<not> less_file f f"
  by (simp add: less_file_def split: option.splits)

lemma sorted_wrt_last:
  "sorted_wrt P ys \<Longrightarrow> x \<in> set (butlast ys) \<Longrightarrow> P x (last ys)"
proof (induction ys)
  case Nil
  then show ?case by simp
next
  case (Cons y ys)
  then show ?case by (cases ys) auto
qed

lemma last_is_not_less:
  assumes "ys \<noteq> []" and "sorted_wrt (\<lambda>a b. \<not> less_file b a) ys" and "f \<in> set ys"
  shows "\<not> less_file (last ys) f"
proof (cases "f \<in> set (butlast ys)")
  case True
  then show ?thesis using sorted_wrt_last [OF assms(2)] by blast
next
  case False
  then have "f = last ys"
    using assms(1,3) by (metis append_butlast_last_id insert_iff list.set(1,2) set_append Un_iff empty_iff)
  then show ?thesis by (simp add: less_file_irrefl)
qed

lemma findLatestFile_nonempty:
  assumes "ReadDir dirPath = Inr entries"
    and "files = map Name (filter (\<lambda>entry. \<not> IsDir entry) entries)"
    and "files \<noteq> []"
  shows "findLatestFile sort_slice ReadDir dirPath =
     Inr (dirPath @ ''/'' @
          sort_slice less_file files ! (length (sort_slice less_file files) - 1))"
  using assms by (simp add: findLatestFile_def Let_def)

lemma permuted_nonempty:
  assumes "mset ys = mset xs" and "xs \<noteq> []"
  shows "ys \<noteq> []" and "set ys = set xs"
  using assms by (auto dest: mset_eq_setD)

text \<open>
  Claim C7. \<^verbatim>\<open>findLatestFile\<close> fails with the no-files error on an empty list of files.
  Otherwise it sorts the whole list by \<open>less_file\<close>, which compares the numbers when
  \<^verbatim>\<open>strconv.Atoi\<close> accepts both names and the strings otherwise, and returns the last
  element of the sorted slice. \<^verbatim>\<open>sort.Slice\<close> permutes the slice; when it also leaves it
  ordered by the comparator, no file is greater than the one returned, and among
  \<^verbatim>\<open>10\<close>, \<^verbatim>\<open>2\<close>, \<^verbatim>\<open>9\<close> that is \<^verbatim>\<open>10\<close>.
\<close>

theorem latest_file_is_last_after_sort:
  "ReadDir dirPath = Inr entries \<Longrightarrow>
   files = map Name (filter (\<lambda>entry. \<not> IsDir entry) entries) \<Longrightarrow>
   sorted_files = sort_slice less_file files \<Longrightarrow>
     (files = [] \<longrightarrow> findLatestFile sort_slice ReadDir dirPath = Inl (NoFilesFound dirPath))
   \<and> (files \<noteq> [] \<and> mset sorted_files = mset files \<longrightarrow>
        findLatestFile sort_slice ReadDir dirPath = Inr (dirPath @ ''/'' @ last sorted_files)
        \<and> last sorted_files \<in> set files)
   \<and> (files \<noteq> [] \<and> mset sorted_files = mset files
        \<and> sorted_wrt (\<lambda>a b. \<not> less_file b a) sorted_files \<longrightarrow>
        (\<forall>f \<in> set files. \<not> less_file (last sorted_files) f))
   \<and> (\<forall>fi fj iInt jInt. Atoi fi = Some iInt \<and> Atoi fj = Some jInt \<longrightarrow>
        less_file fi fj = (iInt < jInt))
   \<and> (\<forall>fi fj. Atoi fi = None \<or> Atoi fj = None \<longrightarrow> less_file fi fj = (fi < fj))
   \<and> (files = [''10'', ''2'', ''9''] \<and> mset sorted_files = mset files
        \<and> sorted_wrt (\<lambda>a b. \<not> less_file b a) sorted_files \<longrightarrow>
        findLatestFile sort_slice ReadDir dirPath = Inr (dirPath @ ''/10''))"
proof -
  assume read: "ReadDir dirPath = Inr entries"
    and files: "files = map Name (filter (\<lambda>entry. \<not> IsDir entry) entries)"
    and sorted_files: "sorted_files = sort_slice less_file files"
  have empty: "findLatestFile sort_slice ReadDir dirPath = Inl (NoFilesFound dirPath)" if "files = []"
    using that read files by (simp add: findLatestFile_def)
  have selected: "findLatestFile sort_slice ReadDir dirPath = Inr (dirPath @ ''/'' @ last sorted_files)
        \<and> last sorted_files \<in> set files"
    if "files \<noteq> [] \<and> mset sorted_files = mset files"
  proof -
    have ne: "sorted_files \<noteq> []" and same: "set sorted_files = set files"
      using permuted_nonempty [of sorted_files files] that by simp_all
    have "sorted_files ! (length sorted_files - 1) = last sorted_files"
      using ne by (simp add: last_conv_nth)
    then show ?thesis
      using findLatestFile_nonempty [of ReadDir dirPath entries files sort_slice]
        read files that ne same sorted_files
      by (metis last_in_set)
  qed
  have greatest: "\<forall>f \<in> set files. \<not> less_file (last sorted_files) f"
    if "files \<noteq> [] \<and> mset sorted_files = mset files
        \<and> sorted_wrt (\<lambda>a b. \<not> less_file b a) sorted_files"
  proof -
    have ne: "sorted_files \<noteq> []" and same: "set sorted_files = set files"
      using permuted_nonempty [of sorted_files files] that by simp_all
    show ?thesis
      using last_is_not_less [OF ne] that same by blast
  qed
  have numeric: "\<forall>fi fj iInt jInt. Atoi fi = Some iInt \<and> Atoi fj = Some jInt \<longrightarrow>
        less_file fi fj = (iInt < jInt)"
    by (simp add: less_file_def)
  have lexical: "\<forall>fi fj. Atoi fi = None \<or> Atoi fj = None \<longrightarrow> less_file fi fj = (fi < fj)"
    by (auto simp: less_file_def split: option.splits)
  have example: "findLatestFile sort_slice ReadDir dirPath = Inr (dirPath @ ''/10'')"
    if ex: "files = [''10'', ''2'', ''9''] \<and> mset sorted_files = mset files
        \<and> sorted_wrt (\<lambda>a b. \<not> less_file b a) sorted_files"
  proof -
    have ne: "files \<noteq> []" using ex by simp
    have parsed: "Atoi ''10'' = Some 10" "Atoi ''2'' = Some 2" "Atoi ''9'' = Some 9"
      by (simp_all add: Atoi_def digit_def)
    have less: "less_file ''2'' ''10''" "less_file ''9'' ''10''"
      by (simp_all add: less_file_def parsed)
    have "last sorted_files \<in> {''10'', ''2'', ''9''}"
      using selected ex ne by auto
    moreover have "\<not> less_file (last sorted_files) ''10''"
      using greatest ex ne by auto
    ultimately have "last sorted_files = ''10''"
      using less by auto
    then show ?thesis using selected ex ne by simp
  qed
  show ?thesis
    using empty selected greatest numeric lexical example by blast
qed

theorem latest_file_is_last_after_sort_witness:
  "findLatestFile insertionSort sample_ReadDir ''/logs/2024-01-02'' = Inr ''/logs/2024-01-02/10''
   \<and> insertionSort less_file [''10'', ''2'', ''9''] = [''2'', ''9'', ''10'']
   \<and> findLatestFile insertionSort sample_ReadDir ''/empty'' = Inl (NoFilesFound ''/empty'')"
proof -
  have a: "sample_ReadDir ''/logs/2024-01-02'' =
      Inr [\<lparr>Name = ''10'', IsDir = False\<rparr>, \<lparr>Name = ''2'', IsDir = False\<rparr>,
           \<lparr>Name = ''9'', IsDir = False\<rparr>, \<lparr>Name = ''old'', IsDir = True\<rparr>]"
    by (simp add: sample_ReadDir_def)
  have c: "sample_ReadDir ''/empty'' = Inr []"
    by (simp add: sample_ReadDir_def)
  have sorted: "insertionSort less_file [''10'', ''2'', ''9''] = [''2'', ''9'', ''10'']"
    by (simp add: insertionSort_def less_file_def Atoi_def digit_def)
  have order: "sorted_wrt (\<lambda>a b. \<not> less_file b a) [''2'', ''9'', ''10'']"
    by (simp add: less_file_def Atoi_def digit_def)
  show ?thesis
    using latest_file_is_last_after_sort [of sample_ReadDir "''/logs/2024-01-02''" _
          "[''10'', ''2'', ''9'']" "[''2'', ''9'', ''10'']" insertionSort, OF a]
      latest_file_is_last_after_sort [of sample_ReadDir "''/empty''" _ "[]"
          "insertionSort less_file []" insertionSort, OF c]
      sorted order
    by simp
qed


text \<open>The two steps together, on the sample directories.\<close>

lemma sample_latest_log_file:
  "findLatestLogFile insertionSort sample_ReadDir ''/logs'' = Inr ''/logs/2024-01-02/10''
   \<and> findLatestLogFile insertionSort sample_ReadDir ''/missing'' =
       Inl (FailedToFindLatestDateDirectory OSError)
   \<and> findLatestLogFile insertionSort sample_ReadDir ''/empty'' =
       Inl (FailedToFindLatestDateDirectory (NoDirectoriesFound ''/empty''))"
  by (simp add: findLatestLogFile_def findLatestDir_def findLatestFile_def sample_ReadDir_def
      insertionSort_def less_file_def Atoi_def digit_def)

end
